theory Spec2Isabelle
  imports Main
begin

section \<open>The Bebop swap script: values, errors and the services it talks to\<close>

text \<open>
  The development embeds the swap script (\<^verbatim>\<open>swapTokenBebop\<close> and its helpers
  \<^verbatim>\<open>getWalletAddress\<close>, \<^verbatim>\<open>ensureTokenApproval\<close>, \<^verbatim>\<open>getBebopQuote\<close>,
  \<^verbatim>\<open>executeSwap\<close>, \<^verbatim>\<open>getCAIP2\<close>, \<^verbatim>\<open>getChainName\<close>).

  A JavaScript value that may be \<^verbatim>\<open>undefined\<close> is an \<open>option\<close> (\<open>None\<close> is
  \<^verbatim>\<open>undefined\<close>); a string is falsy when it is empty and a number when it is zero. A
  thrown exception is the \<open>Inl\<close> of a sum. Every function that awaits a remote service
  returns, next to its result, the list of outbound calls it made, in order; console
  output is not part of the model. Chain identifiers are integers.
\<close>

datatype js_error =
    Error string
  | TypeError string
  | InvalidArgument string
  | NumericFault string

subsection \<open>Numbers as text\<close>

definition digit_char :: "nat \<Rightarrow> char" where
  "digit_char d = ''0123456789'' ! d"

function digits_of :: "int \<Rightarrow> string" where
  "digits_of n =
     (if n < 10 then [digit_char (nat n)]
      else digits_of (n div 10) @ [digit_char (nat (n mod 10))])"
  by pat_completeness auto
termination
  by (relation "measure nat") auto

declare digits_of.simps [simp del]

text \<open>\<^verbatim>\<open>String(n)\<close> and \<^verbatim>\<open>n.toString()\<close> of an integer \<open>n\<close>: decimal digits, a
  minus sign in front of a negative one.\<close>

definition int_toString :: "int \<Rightarrow> string" where
  "int_toString i = (if i < 0 then CHR ''-'' # digits_of (- i) else digits_of i)"

fun join :: "string \<Rightarrow> string list \<Rightarrow> string" where
  "join sep [] = []"
| "join sep [x] = x"
| "join sep (x # y # ys) = x @ sep @ join sep (y # ys)"

subsection \<open>Truthiness and defaults\<close>

text \<open>\<^verbatim>\<open>a || b\<close> on strings that may be undefined: \<open>a\<close> when it is truthy.\<close>

definition truthy :: "string option \<Rightarrow> bool" where
  "truthy v = (case v of None \<Rightarrow> False | Some s \<Rightarrow> s \<noteq> [])"

definition js_or :: "string option \<Rightarrow> string option \<Rightarrow> string option" where
  "js_or a b = (if truthy a then a else b)"

text \<open>A string that may be undefined inside a template literal.\<close>

definition js_str :: "string option \<Rightarrow> string" where
  "js_str v = (case v of None \<Rightarrow> ''undefined'' | Some s \<Rightarrow> s)"

text \<open>\<^verbatim>\<open>a || 'literal'\<close>.\<close>

definition or_default :: "string option \<Rightarrow> string \<Rightarrow> string" where
  "or_default a d = (case a of None \<Rightarrow> d | Some s \<Rightarrow> if s = [] then d else s)"

subsection \<open>The ethers library\<close>

definition is_digit :: "char \<Rightarrow> bool" where
  "is_digit c = (c \<in> set ''0123456789'')"

definition digit_val :: "char \<Rightarrow> int" where
  "digit_val c = of_char c - 48"

definition digits_val :: "string \<Rightarrow> int" where
  "digits_val s = foldl (\<lambda>a c. 10 * a + digit_val c) 0 s"

text \<open>
  Modelled from the spec: \<^verbatim>\<open>ethers.parseEther\<close>, a function of the ethers library,
  whose code is not part of the repository. The spec has the amount, a decimal string in
  human units, ``converted to the smallest unit assuming 18 fractional digits''. The
  string is an optional minus sign, digits, an optional point and digits, with one digit
  at least; fractional digits beyond the eighteenth must be zeros; the result is a
  512-bit signed integer. \<open>digits_val\<close> reads a string of digits as a decimal numeral.
\<close>

definition parseEther :: "string \<Rightarrow> js_error + int" where
  "parseEther v =
     (let negative = (v \<noteq> [] \<and> hd v = CHR ''-'');
          s1 = (if negative then tl v else v);
          whole = takeWhile is_digit s1;
          s2 = dropWhile is_digit s1;
          s3 = (if s2 \<noteq> [] \<and> hd s2 = CHR ''.'' then tl s2 else s2);
          frac = takeWhile is_digit s3;
          s4 = dropWhile is_digit s3
      in if s4 \<noteq> [] \<or> length whole + length frac = 0
         then Inl (InvalidArgument ''invalid FixedNumber string value'')
         else
           let decimal = frac @ replicate (18 - length frac) (CHR ''0'') in
           if \<not> list_all (\<lambda>c. c = CHR ''0'') (drop 18 decimal)
           then Inl (NumericFault ''too many decimals for format'')
           else
             let magnitude = digits_val ((if whole = [] then ''0'' else whole) @ take 18 decimal);
                 val = (if negative then - magnitude else magnitude)
             in if val < - (2 ^ 511) \<or> 2 ^ 511 \<le> val
                then Inl (NumericFault ''overflow'')
                else Inr val)"

subsection \<open>Requests, responses and outbound calls\<close>

text \<open>The argument object of \<^verbatim>\<open>swapTokenBebop\<close>. The two flags carry their default
  \<^verbatim>\<open>false\<close> when the caller leaves them out.\<close>

record swap_request =
  walletId :: "string option"
  fromToken :: "string option"
  toToken :: "string option"
  amount :: "string option"
  fromChain :: "int option"
  toChain :: "int option"
  gasless :: bool
  skipApproval :: bool

text \<open>The query parameters of the quote request (\<^verbatim>\<open>params\<close> in \<^verbatim>\<open>getBebopQuote\<close>).\<close>

record quote_params =
  buy_tokens :: string
  sell_tokens :: string
  sell_amounts :: string
  taker_address :: string
  gasless_param :: bool
  approval_type :: string

text \<open>The prepared transaction of a quote response (\<^verbatim>\<open>response.data.tx\<close>).\<close>

record raw_transaction =
  raw_to :: string
  raw_data :: string
  raw_value :: "string option"
  raw_buyAmount :: "string option"

text \<open>The body of a quote response (\<^verbatim>\<open>response.data\<close>). The script reads
  \<^verbatim>\<open>error\<close>, \<^verbatim>\<open>tx\<close> and \<^verbatim>\<open>buyAmount\<close>; a \<^verbatim>\<open>sellAmount\<close> the venue may
  send is carried along to show that it is never read.\<close>

record quote_data =
  data_error :: "string option"
  data_tx :: "raw_transaction option"
  data_buyAmount :: "string option"
  data_sellAmount :: "string option"

text \<open>The argument of the custody service's \<^verbatim>\<open>walletApi.rpc\<close>:
  \<^verbatim>\<open>{walletId, caip2, method, params: {transaction: {to, data, value}, sponsor}}\<close>.
  The sponsorship flag is optional (the withdrawal script of the repository sends one).\<close>

record transaction =
  tx_to :: string
  tx_data :: string
  tx_value :: string

record rpc_request =
  rpc_walletId :: string
  rpc_caip2 :: string
  rpc_method :: string
  rpc_transaction :: transaction
  rpc_sponsor :: "bool option"

text \<open>What the custody service answers: \<^verbatim>\<open>result.data\<close> with the transaction hash and
  the chain echoed, and the wallet of \<^verbatim>\<open>wallets().get\<close>.\<close>

record rpc_data =
  data_hash :: string
  data_caip2 :: string

record wallet =
  wallet_address :: string

datatype event =
    WalletGet string
  | HttpGet string quote_params
  | WalletRpc rpc_request
  | Delay int

text \<open>
  The collaborators of the script, as functions of the request they receive: the custody
  client (\<^verbatim>\<open>wallets().get\<close>, \<^verbatim>\<open>walletApi.rpc\<close>), the HTTP client (\<^verbatim>\<open>axios.get\<close>,
  which throws on a status that is not a success), and two functions of the ethers
  library whose results the script only passes on: \<^verbatim>\<open>isAddress\<close> and the ABI encoding
  of a call of \<^verbatim>\<open>approve(spender, amount)\<close>; and the two variables the script
  reads from the process environment.
\<close>

record services =
  ethers_isAddress :: "string \<Rightarrow> bool"
  ethers_encodeApprove :: "string \<Rightarrow> int \<Rightarrow> string"
  wallets_get :: "string \<Rightarrow> js_error + wallet"
  walletApi_rpc :: "rpc_request \<Rightarrow> js_error + rpc_data"
  axios_get :: "string \<Rightarrow> quote_params \<Rightarrow> js_error + quote_data"
  env_BEBOP_AUTH_KEY :: "string option"
  env_BEBOP_SOURCE_ID :: "string option"

text \<open>What the helpers return.\<close>

record wallet_info =
  address :: string

record bebop_quote =
  tx :: "raw_transaction option"
  sellAmount :: string
  buyAmount :: "string option"

record result_quote =
  res_fromToken :: string
  res_toToken :: string
  res_sellAmount :: string
  res_buyAmount :: "string option"

record swap_result =
  success :: bool
  transactionHash :: string
  quote :: result_quote

section \<open>The functions of the script\<close>

text \<open>\<^verbatim>\<open>throw new Error(msg)\<close> before any call has been made.\<close>

definition throw_Error :: "string \<Rightarrow> event list \<times> (js_error + 'a)" where
  "throw_Error msg = ([], Inl (Error msg))"

text \<open>\<^verbatim>\<open>ethers.MaxUint256\<close> and the address of the settlement contract.\<close>

definition MaxUint256 :: int where
  "MaxUint256 = 2 ^ 256 - 1"

definition BEBOP_SETTLEMENT :: string where
  "BEBOP_SETTLEMENT = ''0xbbbbbBB520d69a9775E85b458C58c648259FAD5F''"

subsection \<open>Chain helpers\<close>

text \<open>\<^verbatim>\<open>getCAIP2\<close>: the template literal \<^verbatim>\<open>`eip155:${chainId}`\<close>. A chain
  identifier is an integer, which JavaScript prints in full (as it does below
  \<open>10\<^sup>2\<^sup>1\<close>).\<close>

definition getCAIP2 :: "int \<Rightarrow> string" where
  "getCAIP2 chainId = ''eip155:'' @ int_toString chainId"

text \<open>The object literal \<^verbatim>\<open>chains\<close> of \<^verbatim>\<open>getChainName\<close>, in the order of the source.\<close>

definition chains :: "(int \<times> string) list" where
  "chains =
     [(1, ''ethereum''),
      (8453, ''base''),
      (137, ''polygon''),
      (42161, ''arbitrum''),
      (10, ''optimism''),
      (11155111, ''sepolia'')]"

text \<open>\<^verbatim>\<open>Object.keys\<close> lists integer keys in ascending order.\<close>

definition Object_keys :: "(int \<times> string) list \<Rightarrow> string list" where
  "Object_keys tbl = map int_toString (sort (map fst tbl))"

definition getChainName :: "int \<Rightarrow> js_error + string" where
  "getChainName chainId =
     (case map_of chains chainId of
        None \<Rightarrow>
          Inl (Error (''Unsupported chain ID: '' @ int_toString chainId @ ''. Supported: ''
                      @ join '', '' (Object_keys chains)))
      | Some name \<Rightarrow>
          if name = [] then
            Inl (Error (''Unsupported chain ID: '' @ int_toString chainId @ ''. Supported: ''
                        @ join '', '' (Object_keys chains)))
          else Inr name)"

subsection \<open>The stages and the orchestrator\<close>

text \<open>\<^verbatim>\<open>getWalletAddress\<close> asks the custody service for the wallet;
  \<^verbatim>\<open>ensureTokenApproval\<close> submits the approval and waits three seconds;
  \<^verbatim>\<open>getBebopQuote\<close> maps the chain, converts the amount and asks the venue for a
  quote; \<^verbatim>\<open>executeSwap\<close> submits the prepared transaction. Reading a property of
  \<^verbatim>\<open>undefined\<close> throws a \<^verbatim>\<open>TypeError\<close>.\<close>

definition getWalletAddress ::
  "services \<Rightarrow> string \<Rightarrow> int \<Rightarrow> event list \<times> (js_error + wallet_info)" where
  "getWalletAddress client wid chainId =
     (let caip2 = getCAIP2 chainId in
      ([WalletGet wid],
       case wallets_get client wid of
         Inl e \<Rightarrow> Inl e
       | Inr w \<Rightarrow> Inr \<lparr>address = wallet_address w\<rparr>))"

definition ensureTokenApproval ::
  "services \<Rightarrow> string \<Rightarrow> string \<Rightarrow> string \<Rightarrow> int \<Rightarrow> string
     \<Rightarrow> event list \<times> (js_error + string)" where
  "ensureTokenApproval client wid tokenAddress amt chainId walletAddress =
     (let data = ethers_encodeApprove client BEBOP_SETTLEMENT MaxUint256;
          caip2 = getCAIP2 chainId;
          request = \<lparr>rpc_walletId = wid, rpc_caip2 = caip2,
                     rpc_method = ''eth_sendTransaction'',
                     rpc_transaction = \<lparr>tx_to = tokenAddress, tx_data = data, tx_value = ''0x0''\<rparr>,
                     rpc_sponsor = None\<rparr>
      in case walletApi_rpc client request of
           Inl e \<Rightarrow> ([WalletRpc request], Inl e)
         | Inr result \<Rightarrow> ([WalletRpc request, Delay 3000], Inr (data_hash result)))"

definition getBebopQuote ::
  "services \<Rightarrow> string \<Rightarrow> string \<Rightarrow> string \<Rightarrow> string \<Rightarrow> int \<Rightarrow> bool \<Rightarrow> string \<Rightarrow> string
     \<Rightarrow> event list \<times> (js_error + bebop_quote)" where
  "getBebopQuote client walletAddress ft tt amt chainId gl authKey sourceId =
     (case getChainName chainId of
        Inl e \<Rightarrow> ([], Inl e)
      | Inr chainName \<Rightarrow>
          let url = ''https://api.bebop.xyz/pmm/'' @ chainName @ ''/v3/quote'' in
          (case parseEther amt of
             Inl e \<Rightarrow> ([], Inl e)
           | Inr wei \<Rightarrow>
               let amountWei = int_toString wei;
                   params = \<lparr>buy_tokens = tt, sell_tokens = ft, sell_amounts = amountWei,
                             taker_address = walletAddress, gasless_param = gl,
                             approval_type = ''Standard''\<rparr>
               in (case axios_get client url params of
                     Inl e \<Rightarrow> ([HttpGet url params], Inl e)
                   | Inr response_data \<Rightarrow>
                       if truthy (data_error response_data)
                       then ([HttpGet url params],
                             Inl (Error (''Bebop quote error: '' @ js_str (data_error response_data))))
                       else if truthy (data_buyAmount response_data)
                       then ([HttpGet url params],
                             Inr \<lparr>tx = data_tx response_data, sellAmount = amountWei,
                                  buyAmount = data_buyAmount response_data\<rparr>)
                       else (case data_tx response_data of
                               None \<Rightarrow>
                                 ([HttpGet url params],
                                  Inl (TypeError ''Cannot read properties of undefined (reading 'buyAmount')''))
                             | Some t \<Rightarrow>
                                 ([HttpGet url params],
                                  Inr \<lparr>tx = data_tx response_data, sellAmount = amountWei,
                                       buyAmount = raw_buyAmount t\<rparr>)))))"

definition executeSwap ::
  "services \<Rightarrow> string \<Rightarrow> raw_transaction option \<Rightarrow> int \<Rightarrow> event list \<times> (js_error + string)" where
  "executeSwap client wid rawTransaction chainId =
     (let caip2 = getCAIP2 chainId in
      case rawTransaction of
        None \<Rightarrow> ([], Inl (TypeError ''Cannot read properties of undefined (reading 'to')''))
      | Some raw \<Rightarrow>
          let request = \<lparr>rpc_walletId = wid, rpc_caip2 = caip2,
                         rpc_method = ''eth_sendTransaction'',
                         rpc_transaction =
                           \<lparr>tx_to = raw_to raw, tx_data = raw_data raw,
                            tx_value = or_default (raw_value raw) ''0x0''\<rparr>,
                         rpc_sponsor = None\<rparr>
          in ([WalletRpc request],
              case walletApi_rpc client request of
                Inl e \<Rightarrow> Inl e
              | Inr result \<Rightarrow> Inr (data_hash result)))"

text \<open>
  The \<^verbatim>\<open>try\<close> block of \<^verbatim>\<open>swapTokenBebop\<close>, a function of the variables it reads.
  Step 2 writes to the console in both branches and does nothing else: the call of
  \<^verbatim>\<open>ensureTokenApproval\<close> is commented out in the source. The \<^verbatim>\<open>catch\<close> block
  rethrows the error it caught.
\<close>

definition swapTokenBebop_try ::
  "services \<Rightarrow> string \<Rightarrow> string \<Rightarrow> string \<Rightarrow> string \<Rightarrow> int \<Rightarrow> bool \<Rightarrow> bool \<Rightarrow> string \<Rightarrow> string
     \<Rightarrow> event list \<times> (js_error + swap_result)" where
  "swapTokenBebop_try client wid ft tt amt fc gl skip BEBOP_AUTH_KEY BEBOP_SOURCE_ID =
     (let (t1, r1) = getWalletAddress client wid fc
      in case r1 of
           Inl e \<Rightarrow> (t1, Inl e)
         | Inr walletInfo \<Rightarrow>
             let t2 = (if \<not> skip then [] else []);
                 (t3, r3) = getBebopQuote client (address walletInfo) ft tt amt fc gl
                              BEBOP_AUTH_KEY BEBOP_SOURCE_ID
             in case r3 of
                  Inl e \<Rightarrow> (t1 @ t2 @ t3, Inl e)
                | Inr q \<Rightarrow>
                    let (t4, r4) = executeSwap client wid (tx q) fc
                    in case r4 of
                         Inl e \<Rightarrow> (t1 @ t2 @ t3 @ t4, Inl e)
                       | Inr txHash \<Rightarrow>
                           (t1 @ t2 @ t3 @ t4,
                            Inr \<lparr>success = True, transactionHash = txHash,
                                 quote = \<lparr>res_fromToken = ft, res_toToken = tt,
                                           res_sellAmount = sellAmount q,
                                           res_buyAmount = buyAmount q\<rparr>\<rparr>))"

text \<open>\<^verbatim>\<open>swapTokenBebop\<close>: the checks, in the order of the source, then the
  \<^verbatim>\<open>try\<close> block.\<close>

definition swapTokenBebop :: "services \<Rightarrow> swap_request \<Rightarrow> event list \<times> (js_error + swap_result)" where
  "swapTokenBebop client r =
     (case walletId r of
        None \<Rightarrow> throw_Error ''walletId is required''
      | Some wid \<Rightarrow>
     if wid = [] then throw_Error ''walletId is required'' else
     (case fromToken r of
        None \<Rightarrow> throw_Error ''fromToken address is required''
      | Some ft \<Rightarrow>
     if ft = [] then throw_Error ''fromToken address is required'' else
     (case toToken r of
        None \<Rightarrow> throw_Error ''toToken address is required''
      | Some tt \<Rightarrow>
     if tt = [] then throw_Error ''toToken address is required'' else
     (case amount r of
        None \<Rightarrow> throw_Error ''amount is required''
      | Some amt \<Rightarrow>
     if amt = [] then throw_Error ''amount is required'' else
     (case fromChain r of
        None \<Rightarrow> throw_Error ''fromChain ID is required''
      | Some fc \<Rightarrow>
     if fc = 0 then throw_Error ''fromChain ID is required'' else
     if (case toChain r of None \<Rightarrow> False | Some tc \<Rightarrow> tc \<noteq> 0 \<and> tc \<noteq> fc)
     then throw_Error ''Bebop only supports same-chain swaps. fromChain must equal toChain.''
     else if \<not> ethers_isAddress client ft
     then throw_Error (''Invalid fromToken address: '' @ ft)
     else if \<not> ethers_isAddress client tt
     then throw_Error (''Invalid toToken address: '' @ tt)
     else
       swapTokenBebop_try client wid ft tt amt fc (gasless r) (skipApproval r)
         (or_default (env_BEBOP_AUTH_KEY client) ''bebop-auth-key'')
         (or_default (env_BEBOP_SOURCE_ID client) ''privy-integration''))))))"

section \<open>Notions used in the statements\<close>

text \<open>The transactions submitted to the custody service, and the quote requests.\<close>

fun submissions :: "event list \<Rightarrow> rpc_request list" where
  "submissions [] = []"
| "submissions (WalletRpc q # es) = q # submissions es"
| "submissions (e # es) = submissions es"

fun quote_requests :: "event list \<Rightarrow> (string \<times> quote_params) list" where
  "quote_requests [] = []"
| "quote_requests (HttpGet url p # es) = (url, p) # quote_requests es"
| "quote_requests (e # es) = quote_requests es"

text \<open>The errors thrown by the checks of \<^verbatim>\<open>swapTokenBebop\<close>, all of them before the
  \<^verbatim>\<open>try\<close> block.\<close>

definition validation_errors :: "swap_request \<Rightarrow> js_error list" where
  "validation_errors r =
     [Error ''walletId is required'',
      Error ''fromToken address is required'',
      Error ''toToken address is required'',
      Error ''amount is required'',
      Error ''fromChain ID is required'',
      Error ''Bebop only supports same-chain swaps. fromChain must equal toChain.'',
      Error (''Invalid fromToken address: '' @ js_str (fromToken r)),
      Error (''Invalid toToken address: '' @ js_str (toToken r))]"

text \<open>The five fields \<^verbatim>\<open>swapTokenBebop\<close> requires are present: none of them is
  undefined, an empty string or zero.\<close>

definition required_present :: "swap_request \<Rightarrow> bool" where
  "required_present r =
     (truthy (walletId r) \<and> truthy (fromToken r) \<and> truthy (toToken r) \<and> truthy (amount r) \<and>
      (case fromChain r of None \<Rightarrow> False | Some fc \<Rightarrow> fc \<noteq> 0))"

text \<open>The address and the query of the quote request, as \<^verbatim>\<open>getBebopQuote\<close> builds them.\<close>

abbreviation quote_url :: "string \<Rightarrow> string" where
  "quote_url chainName \<equiv> ''https://api.bebop.xyz/pmm/'' @ chainName @ ''/v3/quote''"

abbreviation quote_query :: "string \<Rightarrow> string \<Rightarrow> string \<Rightarrow> int \<Rightarrow> bool \<Rightarrow> quote_params" where
  "quote_query walletAddress ft tt wei gl \<equiv>
     \<lparr>buy_tokens = tt, sell_tokens = ft, sell_amounts = int_toString wei,
      taker_address = walletAddress, gasless_param = gl, approval_type = ''Standard''\<rparr>"

text \<open>The transaction \<^verbatim>\<open>executeSwap\<close> submits for a prepared transaction.\<close>

abbreviation settlement_request :: "string \<Rightarrow> raw_transaction \<Rightarrow> int \<Rightarrow> rpc_request" where
  "settlement_request wid raw chainId \<equiv>
     \<lparr>rpc_walletId = wid, rpc_caip2 = getCAIP2 chainId, rpc_method = ''eth_sendTransaction'',
      rpc_transaction = \<lparr>tx_to = raw_to raw, tx_data = raw_data raw,
                         tx_value = or_default (raw_value raw) ''0x0''\<rparr>,
      rpc_sponsor = None\<rparr>"

section \<open>Test doubles\<close>

text \<open>
  The collaborators of the end-to-end scenario: a custody service that knows every wallet
  and answers every submission with the hash \<^verbatim>\<open>0xabc\<close>, and a quote service that
  answers with a transaction stub, a buy amount and the sell amount
  \<^verbatim>\<open>1000000000000000000\<close>. The address check of the double accepts a string of
  \<^verbatim>\<open>0x\<close> and forty more characters.
\<close>

definition WETH_BASE :: string where
  "WETH_BASE = ''0x4200000000000000000000000000000000000006''"

definition USDC_BASE :: string where
  "USDC_BASE = ''0x833589fCD6eDb6E08f4c7C32D4f71b54bdA02913''"

definition stub_tx :: raw_transaction where
  "stub_tx = \<lparr>raw_to = BEBOP_SETTLEMENT, raw_data = ''0x4dcebcba'', raw_value = None,
              raw_buyAmount = None\<rparr>"

definition mock_quote :: quote_data where
  "mock_quote = \<lparr>data_error = None, data_tx = Some stub_tx,
                 data_buyAmount = Some ''2500000000'',
                 data_sellAmount = Some ''1000000000000000000''\<rparr>"

definition mock_client :: services where
  "mock_client =
     \<lparr>ethers_isAddress = (\<lambda>s. length s = 42 \<and> take 2 s = ''0x''),
      ethers_encodeApprove =
        (\<lambda>spender n. ''approve('' @ spender @ (if n = 2 ^ 256 - 1 then '',max)'' else '',n)'')),
      wallets_get = (\<lambda>w. Inr \<lparr>wallet_address = ''0x00000000000000000000000000000000000000aa''\<rparr>),
      walletApi_rpc = (\<lambda>req. Inr \<lparr>data_hash = ''0xabc'', data_caip2 = rpc_caip2 req\<rparr>),
      axios_get = (\<lambda>url p. Inr mock_quote),
      env_BEBOP_AUTH_KEY = None,
      env_BEBOP_SOURCE_ID = None\<rparr>"

definition scenario_request :: swap_request where
  "scenario_request =
     \<lparr>walletId = Some ''w1'', fromToken = Some WETH_BASE, toToken = Some USDC_BASE,
      amount = Some ''1'', fromChain = Some 8453, toChain = None, gasless = False,
      skipApproval = True\<rparr>"

text \<open>What the end-to-end scenario expects: the three outbound calls and the result.\<close>

definition scenario_calls :: "event list" where
  "scenario_calls =
     [WalletGet ''w1'',
      HttpGet ''https://api.bebop.xyz/pmm/base/v3/quote''
        \<lparr>buy_tokens = USDC_BASE, sell_tokens = WETH_BASE,
         sell_amounts = ''1000000000000000000'',
         taker_address = ''0x00000000000000000000000000000000000000aa'',
         gasless_param = False, approval_type = ''Standard''\<rparr>,
      WalletRpc
        \<lparr>rpc_walletId = ''w1'', rpc_caip2 = ''eip155:8453'',
         rpc_method = ''eth_sendTransaction'',
         rpc_transaction = \<lparr>tx_to = BEBOP_SETTLEMENT, tx_data = ''0x4dcebcba'', tx_value = ''0x0''\<rparr>,
         rpc_sponsor = None\<rparr>]"

definition scenario_result :: swap_result where
  "scenario_result =
     \<lparr>success = True, transactionHash = ''0xabc'',
      quote = \<lparr>res_fromToken = WETH_BASE, res_toToken = USDC_BASE,
                res_sellAmount = ''1000000000000000000'',
                res_buyAmount = Some ''2500000000''\<rparr>\<rparr>"


definition no_wallet_request :: swap_request where
  "no_wallet_request = scenario_request\<lparr>walletId := None, toChain := Some 1\<rparr>"

definition zero_chain_request :: swap_request where
  "zero_chain_request = scenario_request\<lparr>toChain := Some 0\<rparr>"

definition unsupported_chain_request :: swap_request where
  "unsupported_chain_request = scenario_request\<lparr>fromChain := Some 5\<rparr>"

definition cross_chain_request :: swap_request where
  "cross_chain_request = scenario_request\<lparr>toChain := Some 1\<rparr>"

definition error_quote :: quote_data where
  "error_quote = \<lparr>data_error = Some ''insufficient liquidity'', data_tx = None,
                  data_buyAmount = None, data_sellAmount = None\<rparr>"

definition error_client :: services where
  "error_client = mock_client\<lparr>axios_get := (\<lambda>url p. Inr error_quote)\<rparr>"

definition decimals_request :: swap_request where
  "decimals_request =
     scenario_request\<lparr>fromToken := Some USDC_BASE, toToken := Some WETH_BASE, amount := Some ''1.5''\<rparr>"

definition approval_request :: swap_request where
  "approval_request = scenario_request\<lparr>skipApproval := False\<rparr>"

definition gasless_request :: swap_request where
  "gasless_request = scenario_request\<lparr>gasless := True\<rparr>"

text \<open>What \<^verbatim>\<open>ensureTokenApproval\<close> would submit for the sell token of the scenario.\<close>

definition approval_calls :: "event list" where
  "approval_calls =
     [WalletRpc
        \<lparr>rpc_walletId = ''w1'', rpc_caip2 = ''eip155:8453'',
         rpc_method = ''eth_sendTransaction'',
         rpc_transaction =
           \<lparr>tx_to = WETH_BASE,
            tx_data = ''approve(0xbbbbbBB520d69a9775E85b458C58c648259FAD5F,max)'',
            tx_value = ''0x0''\<rparr>,
         rpc_sponsor = None\<rparr>,
      Delay 3000]"

section \<open>Properties of the script\<close>

subsection \<open>Decimal numerals\<close>

lemma digits_val_foldl:
  "foldl (\<lambda>a c. 10 * a + digit_val c) acc s = acc * 10 ^ length s + digits_val s"
proof (induction s arbitrary: acc)
  case Nil
  show ?case by (simp add: digits_val_def)
next
  case (Cons c s)
  have "foldl (\<lambda>a c. 10 * a + digit_val c) acc (c # s) =
          (10 * acc + digit_val c) * 10 ^ length s + digits_val s"
    using Cons.IH [of "10 * acc + digit_val c"] by simp
  also have "digits_val (c # s) = digit_val c * 10 ^ length s + digits_val s"
    using Cons.IH [of "digit_val c"] by (simp add: digits_val_def)
  then have "(10 * acc + digit_val c) * 10 ^ length s + digits_val s =
          acc * 10 ^ length (c # s) + digits_val (c # s)"
    by (simp add: algebra_simps)
  finally show ?case .
qed

lemma digits_val_append:
  "digits_val (a @ b) = digits_val a * 10 ^ length b + digits_val b"
  using digits_val_foldl [of "digits_val a" b] by (simp add: digits_val_def)

lemma digits_val_zeros: "digits_val (replicate n (CHR ''0'')) = 0"
  by (induction n) (simp_all add: digits_val_def digit_val_def)

lemma digit_val_range: "is_digit c \<Longrightarrow> 0 \<le> digit_val c \<and> digit_val c \<le> 9"
  by (auto simp: is_digit_def digit_val_def)

lemma digits_val_nonneg: "\<forall>c\<in>set s. is_digit c \<Longrightarrow> 0 \<le> digits_val s"
proof (induction s rule: rev_induct)
  case Nil
  show ?case by (simp add: digits_val_def)
next
  case (snoc c s)
  then have "0 \<le> digits_val s" "0 \<le> digit_val c"
    using digit_val_range [of c] by simp_all
  then show ?case
    by (simp add: digits_val_append) (simp add: digits_val_def)
qed

lemma digit_val_digit_char:
  assumes "0 \<le> d" "d < 10"
  shows "digit_val (digit_char (nat d)) = d" "is_digit (digit_char (nat d))"
proof -
  from assms have "d \<in> {0, 1, 2, 3, 4, 5, 6, 7, 8, 9}" by (simp, arith)
  then show "digit_val (digit_char (nat d)) = d" "is_digit (digit_char (nat d))"
    by (auto simp: digit_char_def digit_val_def is_digit_def)
qed

text \<open>The text of a natural number is its decimal numeral.\<close>

lemma digits_of_numeral:
  "0 \<le> n \<Longrightarrow> digits_val (digits_of n) = n \<and> (\<forall>c\<in>set (digits_of n). is_digit c)"
proof (induction n rule: digits_of.induct)
  case (1 n)
  show ?case
  proof (cases "n < 10")
    case True
    with "1.prems" show ?thesis
      using digit_val_digit_char [of n]
      by (simp add: digits_of.simps [of n] digits_val_def)
  next
    case False
    with "1.prems" "1.IH" have ih: "digits_val (digits_of (n div 10)) = n div 10"
        "\<forall>c\<in>set (digits_of (n div 10)). is_digit c"
      by simp_all
    have last: "digit_val (digit_char (nat (n mod 10))) = n mod 10"
        "is_digit (digit_char (nat (n mod 10)))"
      using digit_val_digit_char [of "n mod 10"] by simp_all
    have "digits_val [digit_char (nat (n mod 10))] = n mod 10"
      using last by (simp add: digits_val_def)
    with False ih last show ?thesis
      by (simp add: digits_of.simps [of n] digits_val_append)
  qed
qed

lemma int_toString_numeral: "0 \<le> n \<Longrightarrow> digits_val (int_toString n) = n"
  using digits_of_numeral [of n] by (simp add: int_toString_def)

text \<open>The conversion of a decimal number: the digits before the point count units of
  \<open>10\<^sup>1\<^sup>8\<close>, up to eighteen digits after it fill the eighteen places below.\<close>

lemma parseEther_decimal:
  assumes digits: "\<forall>c\<in>set (w @ f). is_digit c" and some: "w @ f \<noteq> []"
    and places: "length f \<le> 18"
    and fits: "digits_val w * 10 ^ 18 + digits_val f * 10 ^ (18 - length f) < 2 ^ 511"
  shows "parseEther (w @ ''.'' @ f) =
           Inr (digits_val w * 10 ^ 18 + digits_val f * 10 ^ (18 - length f))"
proof -
  define v where "v = w @ ''.'' @ f"
  define decimal where "decimal = f @ replicate (18 - length f) (CHR ''0'')"
  define E where "E = digits_val w * 10 ^ 18 + digits_val f * 10 ^ (18 - length f)"
  have no_dot: "\<not> is_digit (CHR ''.'')" and no_minus: "\<not> is_digit (CHR ''-'')"
    by (simp_all add: is_digit_def)
  have positive: "(v \<noteq> [] \<and> hd v = CHR ''-'') = False"
    using digits no_minus unfolding v_def by (cases w) auto
  have whole: "takeWhile is_digit v = w" and rest: "dropWhile is_digit v = CHR ''.'' # f"
    using digits no_dot unfolding v_def by (simp_all add: takeWhile_append2 dropWhile_append2)
  have frac: "takeWhile is_digit f = f" "dropWhile is_digit f = []"
    using digits by simp_all
  have len: "length decimal = 18"
    using places by (simp add: decimal_def)
  then have cut: "drop 18 decimal = []" "take 18 decimal = decimal"
    by simp_all
  have count: "(length w + length f = 0) = False"
    using some by simp
  have "digits_val (if w = [] then ''0'' else w) = digits_val w"
    by (simp add: digits_val_def digit_val_def)
  moreover have "digits_val decimal = digits_val f * 10 ^ (18 - length f)"
    by (simp add: decimal_def digits_val_append digits_val_zeros)
  ultimately have magnitude: "digits_val ((if w = [] then ''0'' else w) @ decimal) = E"
    by (simp only: digits_val_append len E_def)
  have "0 \<le> digits_val w" "0 \<le> digits_val f"
    using digits digits_val_nonneg [of w] digits_val_nonneg [of f] by simp_all
  then have "0 \<le> E"
    by (simp add: E_def)
  moreover have "E < 2 ^ 511"
    using fits by (simp only: E_def)
  ultimately have range: "(E < - (2 ^ 511) \<or> 2 ^ 511 \<le> E) = False"
    by simp
  have "parseEther v = Inr E"
    by (simp only: parseEther_def Let_def positive whole rest frac count
        decimal_def [symmetric] cut magnitude range
        if_False if_True list.sel list.simps simp_thms list.pred_inject)
  then show ?thesis
    by (simp only: v_def E_def)
qed

subsection \<open>The checks of the orchestrator\<close>

lemma validation_errors_mem:
  "Inl (Error ''walletId is required'') \<in> Inl ` set (validation_errors r)"
  "Inl (Error ''fromToken address is required'') \<in> Inl ` set (validation_errors r)"
  "Inl (Error ''toToken address is required'') \<in> Inl ` set (validation_errors r)"
  "Inl (Error ''amount is required'') \<in> Inl ` set (validation_errors r)"
  "Inl (Error ''fromChain ID is required'') \<in> Inl ` set (validation_errors r)"
  "Inl (Error ''Bebop only supports same-chain swaps. fromChain must equal toChain.'')
     \<in> Inl ` set (validation_errors r)"
  by (simp_all add: validation_errors_def)

text \<open>Either one of the checks throws, before any call is made, or every required field
  is present, both addresses pass the address check and the \<^verbatim>\<open>try\<close> block runs.\<close>

lemma swap_checks:
  "(fst (swapTokenBebop client r) = [] \<and> snd (swapTokenBebop client r) \<in> Inl ` set (validation_errors r))
   \<or> (\<exists>wid ft tt amt fc. walletId r = Some wid \<and> wid \<noteq> [] \<and>
      fromToken r = Some ft \<and> ft \<noteq> [] \<and> toToken r = Some tt \<and> tt \<noteq> [] \<and>
      amount r = Some amt \<and> amt \<noteq> [] \<and> fromChain r = Some fc \<and> fc \<noteq> 0 \<and>
      (toChain r = None \<or> toChain r = Some 0 \<or> toChain r = Some fc) \<and>
      ethers_isAddress client ft \<and> ethers_isAddress client tt \<and>
      swapTokenBebop client r =
         swapTokenBebop_try client wid ft tt amt fc (gasless r) (skipApproval r)
           (or_default (env_BEBOP_AUTH_KEY client) ''bebop-auth-key'')
           (or_default (env_BEBOP_SOURCE_ID client) ''privy-integration''))"
  by (cases "walletId r"; cases "fromToken r"; cases "toToken r"; cases "amount r";
      cases "fromChain r"; cases "toChain r";
      simp add: swapTokenBebop_def throw_Error_def validation_errors_mem)
    (simp_all add: validation_errors_def js_str_def)

lemma swap_run:
  assumes "walletId r = Some wid" "wid \<noteq> []" "fromToken r = Some ft" "ft \<noteq> []"
    "toToken r = Some tt" "tt \<noteq> []" "amount r = Some amt" "amt \<noteq> []"
    "fromChain r = Some fc" "fc \<noteq> 0"
    "toChain r = None \<or> toChain r = Some 0 \<or> toChain r = Some fc"
    "ethers_isAddress client ft" "ethers_isAddress client tt"
  shows "swapTokenBebop client r =
           swapTokenBebop_try client wid ft tt amt fc (gasless r) (skipApproval r)
             (or_default (env_BEBOP_AUTH_KEY client) ''bebop-auth-key'')
             (or_default (env_BEBOP_SOURCE_ID client) ''privy-integration'')"
  using assms by (auto simp: swapTokenBebop_def)

subsection \<open>The stages of the pipeline\<close>

lemma try_unfold:
 "swapTokenBebop_try client wid ft tt amt fc gl skip k s =
   (case wallets_get client wid of
      Inl e \<Rightarrow> ([WalletGet wid], Inl e)
    | Inr w \<Rightarrow>
       (case getBebopQuote client (wallet_address w) ft tt amt fc gl k s of
          (t3, Inl e) \<Rightarrow> (WalletGet wid # t3, Inl e)
        | (t3, Inr q) \<Rightarrow>
           (case executeSwap client wid (tx q) fc of
              (t4, Inl e) \<Rightarrow> (WalletGet wid # t3 @ t4, Inl e)
            | (t4, Inr h) \<Rightarrow>
                (WalletGet wid # t3 @ t4,
                 Inr \<lparr>success = True, transactionHash = h,
                      quote = \<lparr>res_fromToken = ft, res_toToken = tt,
                                res_sellAmount = sellAmount q, res_buyAmount = buyAmount q\<rparr>\<rparr>))))"
  by (simp add: swapTokenBebop_try_def getWalletAddress_def split: sum.splits prod.splits)

text \<open>The ways the quote stage can end.\<close>

lemma getBebopQuote_cases:
  obtains (unsupported) e where "getChainName c = Inl e"
      "getBebopQuote client a ft tt amt c gl k s = ([], Inl e)"
  | (bad_amount) name e where "getChainName c = Inr name" "parseEther amt = Inl e"
      "getBebopQuote client a ft tt amt c gl k s = ([], Inl e)"
  | (http_failed) name wei e where "getChainName c = Inr name" "parseEther amt = Inr wei"
      "axios_get client (quote_url name) (quote_query a ft tt wei gl) = Inl e"
      "getBebopQuote client a ft tt amt c gl k s =
         ([HttpGet (quote_url name) (quote_query a ft tt wei gl)], Inl e)"
  | (error_payload) name wei d where "getChainName c = Inr name" "parseEther amt = Inr wei"
      "axios_get client (quote_url name) (quote_query a ft tt wei gl) = Inr d"
      "truthy (data_error d)"
      "getBebopQuote client a ft tt amt c gl k s =
         ([HttpGet (quote_url name) (quote_query a ft tt wei gl)],
          Inl (Error (''Bebop quote error: '' @ js_str (data_error d))))"
  | (no_tx) name wei d where "getChainName c = Inr name" "parseEther amt = Inr wei"
      "axios_get client (quote_url name) (quote_query a ft tt wei gl) = Inr d"
      "\<not> truthy (data_error d)" "\<not> truthy (data_buyAmount d)" "data_tx d = None"
      "getBebopQuote client a ft tt amt c gl k s =
         ([HttpGet (quote_url name) (quote_query a ft tt wei gl)],
          Inl (TypeError ''Cannot read properties of undefined (reading 'buyAmount')''))"
  | (quoted) name wei d where "getChainName c = Inr name" "parseEther amt = Inr wei"
      "axios_get client (quote_url name) (quote_query a ft tt wei gl) = Inr d"
      "\<not> truthy (data_error d)" "truthy (data_buyAmount d) \<or> data_tx d \<noteq> None"
      "getBebopQuote client a ft tt amt c gl k s =
         ([HttpGet (quote_url name) (quote_query a ft tt wei gl)],
          Inr \<lparr>tx = data_tx d, sellAmount = int_toString wei,
               buyAmount = (if truthy (data_buyAmount d) then data_buyAmount d
                            else case data_tx d of None \<Rightarrow> None | Some t \<Rightarrow> raw_buyAmount t)\<rparr>)"
proof (cases "getChainName c")
  case (Inl e)
  then have "getBebopQuote client a ft tt amt c gl k s = ([], Inl e)"
    by (simp add: getBebopQuote_def)
  with Inl show ?thesis by (rule unsupported)
next
  case name: (Inr name)
  show ?thesis
  proof (cases "parseEther amt")
    case (Inl e)
    with name have "getBebopQuote client a ft tt amt c gl k s = ([], Inl e)"
      by (simp add: getBebopQuote_def)
    with name Inl show ?thesis by (rule bad_amount)
  next
    case wei: (Inr wei)
    show ?thesis
    proof (cases "axios_get client (quote_url name) (quote_query a ft tt wei gl)")
      case (Inl e)
      with name wei show ?thesis
        by (intro http_failed [of name wei e]) (simp_all add: getBebopQuote_def Let_def)
    next
      case d: (Inr d)
      consider "truthy (data_error d)"
        | "\<not> truthy (data_error d)" "\<not> truthy (data_buyAmount d)" "data_tx d = None"
        | "\<not> truthy (data_error d)" "truthy (data_buyAmount d) \<or> data_tx d \<noteq> None"
        by blast
      then show ?thesis
      proof cases
        case 1
        with name wei d show ?thesis
          by (intro error_payload [of name wei d]) (simp_all add: getBebopQuote_def Let_def)
      next
        case 2
        with name wei d show ?thesis
          by (intro no_tx [of name wei d]) (simp_all add: getBebopQuote_def Let_def)
      next
        case 3
        with name wei d show ?thesis
          by (intro quoted [of name wei d])
            (auto simp: getBebopQuote_def Let_def split: option.splits)
      qed
    qed
  qed
qed

lemma executeSwap_Some:
  "executeSwap client wid (Some raw) chainId =
     ([WalletRpc (settlement_request wid raw chainId)],
      case walletApi_rpc client (settlement_request wid raw chainId) of
        Inl e \<Rightarrow> Inl e | Inr result \<Rightarrow> Inr (data_hash result))"
  by (simp add: executeSwap_def Let_def)

lemma executeSwap_None:
  "executeSwap client wid None chainId =
     ([], Inl (TypeError ''Cannot read properties of undefined (reading 'to')''))"
  by (simp add: executeSwap_def)

text \<open>The ways the \<^verbatim>\<open>try\<close> block can end.\<close>

lemma try_cases:
  fixes client wid ft tt amt fc gl skip k s
  defines "R \<equiv> swapTokenBebop_try client wid ft tt amt fc gl skip k s"
  obtains (unresolved) e where "wallets_get client wid = Inl e" "R = ([WalletGet wid], Inl e)"
  | (quote_stage_failed) w t e where "wallets_get client wid = Inr w"
      "getBebopQuote client (wallet_address w) ft tt amt fc gl k s = (t, Inl e)"
      "R = (WalletGet wid # t, Inl e)"
  | (no_prepared_tx) w t q where "wallets_get client wid = Inr w"
      "getBebopQuote client (wallet_address w) ft tt amt fc gl k s = (t, Inr q)" "tx q = None"
      "R = (WalletGet wid # t, Inl (TypeError ''Cannot read properties of undefined (reading 'to')''))"
  | (rpc_failed) w t q raw e where "wallets_get client wid = Inr w"
      "getBebopQuote client (wallet_address w) ft tt amt fc gl k s = (t, Inr q)" "tx q = Some raw"
      "walletApi_rpc client (settlement_request wid raw fc) = Inl e"
      "R = (WalletGet wid # t @ [WalletRpc (settlement_request wid raw fc)], Inl e)"
  | (rpc_done) w t q raw d where "wallets_get client wid = Inr w"
      "getBebopQuote client (wallet_address w) ft tt amt fc gl k s = (t, Inr q)" "tx q = Some raw"
      "walletApi_rpc client (settlement_request wid raw fc) = Inr d"
      "R = (WalletGet wid # t @ [WalletRpc (settlement_request wid raw fc)],
            Inr \<lparr>success = True, transactionHash = data_hash d,
                 quote = \<lparr>res_fromToken = ft, res_toToken = tt,
                           res_sellAmount = sellAmount q, res_buyAmount = buyAmount q\<rparr>\<rparr>)"
proof (cases "wallets_get client wid")
  case (Inl e)
  then show ?thesis
    by (intro unresolved [of e]) (simp_all add: R_def try_unfold)
next
  case w: (Inr w)
  obtain t res where g: "getBebopQuote client (wallet_address w) ft tt amt fc gl k s = (t, res)"
    by (cases "getBebopQuote client (wallet_address w) ft tt amt fc gl k s")
  show ?thesis
  proof (cases res)
    case (Inl e)
    with w g show ?thesis
      by (intro quote_stage_failed [of w t e]) (simp_all add: R_def try_unfold)
  next
    case q: (Inr q)
    show ?thesis
    proof (cases "tx q")
      case None
      with w g q show ?thesis
        by (intro no_prepared_tx [of w t q]) (simp_all add: R_def try_unfold executeSwap_None)
    next
      case raw: (Some raw)
      show ?thesis
      proof (cases "walletApi_rpc client (settlement_request wid raw fc)")
        case (Inl e)
        with w g q raw show ?thesis
          by (intro rpc_failed [of w t q raw e]) (simp_all add: R_def try_unfold executeSwap_Some)
      next
        case (Inr d)
        with w g q raw show ?thesis
          by (intro rpc_done [of w t q raw d]) (simp_all add: R_def try_unfold executeSwap_Some)
      qed
    qed
  qed
qed

text \<open>
  Every run of the orchestrator ends in one of five ways: a check rejects the request; the
  run stops after the address lookup (the wallet is unknown, the chain has no network
  name, or the amount is no decimal number); the quote request is made and fails, or its
  answer holds no transaction; the transaction is submitted and the custody service
  refuses it; the transaction is submitted and the result is assembled.
\<close>

lemma swap_outcomes:
  fixes client r
  defines "S \<equiv> swapTokenBebop client r"
  obtains (rejected) "fst S = []" "snd S \<in> Inl ` set (validation_errors r)"
  | (stopped) wid e where "walletId r = Some wid" "S = ([WalletGet wid], Inl e)"
  | (quote_failed) wid ft tt amt fc w name wei e where
      "walletId r = Some wid" "fromToken r = Some ft" "toToken r = Some tt"
      "amount r = Some amt" "fromChain r = Some fc"
      "wallets_get client wid = Inr w" "getChainName fc = Inr name" "parseEther amt = Inr wei"
      "S = ([WalletGet wid,
             HttpGet (quote_url name) (quote_query (wallet_address w) ft tt wei (gasless r))],
            Inl e)"
      "axios_get client (quote_url name) (quote_query (wallet_address w) ft tt wei (gasless r)) = Inl e
       \<or> (\<exists>d. axios_get client (quote_url name)
                  (quote_query (wallet_address w) ft tt wei (gasless r)) = Inr d \<and>
                (truthy (data_error d) \<and> e = Error (''Bebop quote error: '' @ js_str (data_error d))
                 \<or> \<not> truthy (data_error d) \<and> data_tx d = None))"
  | (submit_failed) wid ft tt amt fc w name wei d raw e where
      "walletId r = Some wid" "fromToken r = Some ft" "toToken r = Some tt"
      "amount r = Some amt" "fromChain r = Some fc"
      "wallets_get client wid = Inr w" "getChainName fc = Inr name" "parseEther amt = Inr wei"
      "axios_get client (quote_url name) (quote_query (wallet_address w) ft tt wei (gasless r)) = Inr d"
      "\<not> truthy (data_error d)" "data_tx d = Some raw"
      "walletApi_rpc client (settlement_request wid raw fc) = Inl e"
      "S = ([WalletGet wid,
             HttpGet (quote_url name) (quote_query (wallet_address w) ft tt wei (gasless r)),
             WalletRpc (settlement_request wid raw fc)],
            Inl e)"
  | (submitted) wid ft tt amt fc w name wei d raw h where
      "walletId r = Some wid" "fromToken r = Some ft" "toToken r = Some tt"
      "amount r = Some amt" "fromChain r = Some fc"
      "wallets_get client wid = Inr w" "getChainName fc = Inr name" "parseEther amt = Inr wei"
      "axios_get client (quote_url name) (quote_query (wallet_address w) ft tt wei (gasless r)) = Inr d"
      "\<not> truthy (data_error d)" "data_tx d = Some raw"
      "walletApi_rpc client (settlement_request wid raw fc) = Inr h"
      "S = ([WalletGet wid,
             HttpGet (quote_url name) (quote_query (wallet_address w) ft tt wei (gasless r)),
             WalletRpc (settlement_request wid raw fc)],
            Inr \<lparr>success = True, transactionHash = data_hash h,
                 quote = \<lparr>res_fromToken = ft, res_toToken = tt,
                           res_sellAmount = int_toString wei,
                           res_buyAmount = js_or (data_buyAmount d) (raw_buyAmount raw)\<rparr>\<rparr>)"
proof -
  consider (rej) "fst S = []" "snd S \<in> Inl ` set (validation_errors r)"
    | (run) wid ft tt amt fc where "walletId r = Some wid" "fromToken r = Some ft"
        "toToken r = Some tt" "amount r = Some amt" "fromChain r = Some fc"
        "S = swapTokenBebop_try client wid ft tt amt fc (gasless r) (skipApproval r)
               (or_default (env_BEBOP_AUTH_KEY client) ''bebop-auth-key'')
               (or_default (env_BEBOP_SOURCE_ID client) ''privy-integration'')"
    unfolding S_def using swap_checks [of client r] by blast
  then show ?thesis
  proof cases
    case rej
    then show ?thesis by (rule rejected)
  next
    case (run wid ft tt amt fc)
    note fields = run(1-5)
    let ?gl = "gasless r"
    let ?k = "or_default (env_BEBOP_AUTH_KEY client) ''bebop-auth-key''"
    let ?s = "or_default (env_BEBOP_SOURCE_ID client) ''privy-integration''"
    show ?thesis
    proof (cases rule: try_cases [of client wid ft tt amt fc ?gl "skipApproval r" ?k ?s])
      case (unresolved e)
      with run(6) have "S = ([WalletGet wid], Inl e)" by simp
      with fields(1) show ?thesis by (rule stopped)
    next
      case (quote_stage_failed w t e)
      note qf = this
      show ?thesis
      proof (cases rule: getBebopQuote_cases [of fc client "wallet_address w" ft tt amt ?gl ?k ?s])
        case (unsupported e')
        with qf run(6) have "S = ([WalletGet wid], Inl e)" by simp
        with fields(1) show ?thesis by (rule stopped)
      next
        case (bad_amount name e')
        with qf run(6) have "S = ([WalletGet wid], Inl e)" by simp
        with fields(1) show ?thesis by (rule stopped)
      next
        case (http_failed name wei e')
        from qf(2) http_failed(4) have "t = [HttpGet (quote_url name)
            (quote_query (wallet_address w) ft tt wei ?gl)]" "e = e'"
          by simp_all
        with qf(3) run(6) http_failed(3) show ?thesis
          by (intro quote_failed [of wid ft tt amt fc w name wei e])
            (simp_all add: fields qf(1) http_failed(1,2))
      next
        case (error_payload name wei d)
        from qf(2) error_payload(5) have "t = [HttpGet (quote_url name)
            (quote_query (wallet_address w) ft tt wei ?gl)]"
            "e = Error (''Bebop quote error: '' @ js_str (data_error d))"
          by simp_all
        with qf(3) run(6) error_payload(3,4) show ?thesis
          by (intro quote_failed [of wid ft tt amt fc w name wei e])
            (simp_all add: fields qf(1) error_payload(1,2))
      next
        case (no_tx name wei d)
        from qf(2) no_tx(7) have "t = [HttpGet (quote_url name)
            (quote_query (wallet_address w) ft tt wei ?gl)]"
          by simp_all
        with qf(3) run(6) no_tx(3,4,6) show ?thesis
          by (intro quote_failed [of wid ft tt amt fc w name wei e])
            (simp_all add: fields qf(1) no_tx(1,2))
      next
        case (quoted name wei d)
        with qf(2) show ?thesis by simp
      qed
    next
      case (no_prepared_tx w t q)
      note np = this
      show ?thesis
      proof (cases rule: getBebopQuote_cases [of fc client "wallet_address w" ft tt amt ?gl ?k ?s])
        case (quoted name wei d)
        from np(2) quoted(6) have t: "t = [HttpGet (quote_url name)
            (quote_query (wallet_address w) ft tt wei ?gl)]" and "tx q = data_tx d"
          by auto
        with np(3) have "data_tx d = None" by simp
        with t np(4) run(6) quoted(3,4) show ?thesis
          by (intro quote_failed [of wid ft tt amt fc w name wei
                "TypeError ''Cannot read properties of undefined (reading 'to')''"])
            (simp_all add: fields np(1) quoted(1,2))
      qed (use np(2) in simp_all)
    next
      case (rpc_failed w t q raw e)
      note sf = this
      show ?thesis
      proof (cases rule: getBebopQuote_cases [of fc client "wallet_address w" ft tt amt ?gl ?k ?s])
        case (quoted name wei d)
        from sf(2) quoted(6) have t: "t = [HttpGet (quote_url name)
            (quote_query (wallet_address w) ft tt wei ?gl)]" and "tx q = data_tx d"
          by auto
        with sf(3) have "data_tx d = Some raw" by simp
        with t sf(4,5) run(6) quoted(3,4) show ?thesis
          by (intro submit_failed [of wid ft tt amt fc w name wei d raw e])
            (simp_all add: fields sf(1) quoted(1,2))
      qed (use sf(2) in simp_all)
    next
      case (rpc_done w t q raw h)
      note sb = this
      show ?thesis
      proof (cases rule: getBebopQuote_cases [of fc client "wallet_address w" ft tt amt ?gl ?k ?s])
        case (quoted name wei d)
        from sb(2) quoted(6) have t: "t = [HttpGet (quote_url name)
            (quote_query (wallet_address w) ft tt wei ?gl)]" and tq: "tx q = data_tx d"
          and sq: "sellAmount q = int_toString wei"
          and bq: "buyAmount q = (if truthy (data_buyAmount d) then data_buyAmount d
                            else case data_tx d of None \<Rightarrow> None | Some t \<Rightarrow> raw_buyAmount t)"
          by auto
        from tq sb(3) have raw: "data_tx d = Some raw" by simp
        with bq have "buyAmount q = js_or (data_buyAmount d) (raw_buyAmount raw)"
          by (simp add: js_or_def)
        with t sq raw sb(4,5) run(6) quoted(3,4) show ?thesis
          by (intro submitted [of wid ft tt amt fc w name wei d raw h])
            (simp_all add: fields sb(1) quoted(1,2))
      qed (use sb(2) in simp_all)
    qed
  qed
qed

lemma submissions_append [simp]: "submissions (xs @ ys) = submissions xs @ submissions ys"
  by (induction xs rule: submissions.induct) simp_all

lemma quote_requests_append [simp]: "quote_requests (xs @ ys) = quote_requests xs @ quote_requests ys"
  by (induction xs rule: quote_requests.induct) simp_all

lemma scenario_run: "swapTokenBebop mock_client scenario_request = (scenario_calls, Inr scenario_result)"
  by code_simp

subsection \<open>The approval stage\<close>

text \<open>The skip-approval flag has no effect on a swap, and what \<^verbatim>\<open>ensureTokenApproval\<close>
  does when it is called: it submits a call of \<^verbatim>\<open>approve\<close> for the settlement
  contract and the largest 256-bit integer to the token, and waits three seconds.\<close>

lemma try_ignores_skip:
  "swapTokenBebop_try client wid ft tt amt fc gl skip k s =
   swapTokenBebop_try client wid ft tt amt fc gl False k s"
  by (simp add: try_unfold)

lemma swap_ignores_skipApproval:
  "swapTokenBebop client (r\<lparr>skipApproval := b\<rparr>) = swapTokenBebop client r"
  by (simp add: swapTokenBebop_def try_ignores_skip [of _ _ _ _ _ _ _ b]
      try_ignores_skip [of _ _ _ _ _ _ _ "skipApproval r"]
      cong: option.case_cong if_cong)

lemma ensureTokenApproval_calls:
  "ensureTokenApproval client wid tokenAddress amt chainId walletAddress =
     (let request = \<lparr>rpc_walletId = wid, rpc_caip2 = getCAIP2 chainId,
                     rpc_method = ''eth_sendTransaction'',
                     rpc_transaction =
                       \<lparr>tx_to = tokenAddress,
                        tx_data = ethers_encodeApprove client BEBOP_SETTLEMENT (2 ^ 256 - 1),
                        tx_value = ''0x0''\<rparr>,
                     rpc_sponsor = None\<rparr>
      in case walletApi_rpc client request of
           Inl e \<Rightarrow> ([WalletRpc request], Inl e)
         | Inr h \<Rightarrow> ([WalletRpc request, Delay 3000], Inr (data_hash h)))"
  by (simp add: ensureTokenApproval_def MaxUint256_def Let_def)

text \<open>
  C1. The claim has an approval transaction submitted, and a fixed delay waited, in every
  swap whose skip-approval flag is false. The orchestrator never calls
  \<^verbatim>\<open>ensureTokenApproval\<close> (the call is commented out in the source): a swap with the
  flag false makes the same calls and returns the same result as with the flag true. In
  the end-to-end scenario with the flag false the calls are the address lookup, the quote
  request and the settlement transaction, and none of the two calls the approval stage
  makes.
\<close>

theorem approval_stage_not_called:
  "swapTokenBebop client (r\<lparr>skipApproval := False\<rparr>) =
     swapTokenBebop client (r\<lparr>skipApproval := True\<rparr>) \<and>
   skipApproval approval_request = False \<and>
   swapTokenBebop mock_client approval_request = (scenario_calls, Inr scenario_result) \<and>
   ensureTokenApproval mock_client ''w1'' WETH_BASE ''1'' 8453
       ''0x00000000000000000000000000000000000000aa'' =
     (approval_calls, Inr ''0xabc'')"
proof -
  have "swapTokenBebop client (r\<lparr>skipApproval := False\<rparr>) =
     swapTokenBebop client (r\<lparr>skipApproval := True\<rparr>)"
    by (simp add: swap_ignores_skipApproval)
  moreover have "skipApproval approval_request = False"
    by (simp add: approval_request_def)
  moreover have "swapTokenBebop mock_client approval_request = (scenario_calls, Inr scenario_result)"
    using scenario_run by (simp add: approval_request_def swap_ignores_skipApproval)
  moreover have "ensureTokenApproval mock_client ''w1'' WETH_BASE ''1'' 8453
       ''0x00000000000000000000000000000000000000aa'' =
     (approval_calls, Inr ''0xabc'')"
    by code_simp
  ultimately show ?thesis by blast
qed

subsection \<open>The sell amount of the quote request\<close>

text \<open>
  C2. Every quote request a swap makes carries, as its sell amount, the text of the
  integer \<^verbatim>\<open>parseEther\<close> makes of the input amount; no decimal count of the sell
  token enters. A decimal number with up to eighteen digits after the point is
  converted to its value times \<open>10\<^sup>1\<^sup>8\<close>. The amount 1.5 gives
  1500000000000000000, also for a swap that sells the USDC token, whose own decimal
  count is six.
\<close>

theorem sell_amount_eighteen_digits:
  "((url, p) \<in> set (quote_requests (fst (swapTokenBebop client r))) \<longrightarrow>
      (\<exists>amt wei. amount r = Some amt \<and> parseEther amt = Inr wei \<and>
         sell_amounts p = int_toString wei)) \<and>
   ((\<forall>c\<in>set (w @ f). is_digit c) \<and> w @ f \<noteq> [] \<and> length f \<le> 18 \<and>
    digits_val w * 10 ^ 18 + digits_val f * 10 ^ (18 - length f) < 2 ^ 511 \<longrightarrow>
      parseEther (w @ ''.'' @ f) =
        Inr (digits_val w * 10 ^ 18 + digits_val f * 10 ^ (18 - length f))) \<and>
   parseEther ''1.5'' = Inr 1500000000000000000 \<and>
   int_toString 1500000000000000000 = ''1500000000000000000'' \<and>
   fromToken decimals_request = Some USDC_BASE \<and>
   map (\<lambda>(url, p). sell_amounts p)
     (quote_requests (fst (swapTokenBebop mock_client decimals_request))) =
     [''1500000000000000000'']"
proof -
  have sent: "\<exists>amt wei. amount r = Some amt \<and> parseEther amt = Inr wei \<and>
         sell_amounts p = int_toString wei"
    if made: "(url, p) \<in> set (quote_requests (fst (swapTokenBebop client r)))"
  proof (cases rule: swap_outcomes [of client r])
    case rejected
    with made show ?thesis by simp
  next
    case (stopped wid e)
    with made show ?thesis by simp
  next
    case (quote_failed wid ft tt amt fc w name wei e)
    from made have "p = quote_query (wallet_address w) ft tt wei (gasless r)"
      unfolding quote_failed(9) by simp
    with quote_failed(4,8) show ?thesis by simp
  next
    case (submit_failed wid ft tt amt fc w name wei d raw e)
    from made have "p = quote_query (wallet_address w) ft tt wei (gasless r)"
      unfolding submit_failed(13) by simp
    with submit_failed(4,8) show ?thesis by simp
  next
    case (submitted wid ft tt amt fc w name wei d raw h)
    from made have "p = quote_query (wallet_address w) ft tt wei (gasless r)"
      unfolding submitted(13) by simp
    with submitted(4,8) show ?thesis by simp
  qed
  have example: "parseEther ''1.5'' = Inr 1500000000000000000"
    "int_toString 1500000000000000000 = ''1500000000000000000''"
    by code_simp+
  have usdc: "fromToken decimals_request = Some USDC_BASE"
    by (simp add: decimals_request_def)
  have run: "map (\<lambda>(url, p). sell_amounts p)
     (quote_requests (fst (swapTokenBebop mock_client decimals_request))) =
     [''1500000000000000000'']"
    by code_simp
  from sent parseEther_decimal [of w f] example usdc run show ?thesis
    by blast
qed

theorem sell_amount_eighteen_digits_witness:
  "(\<exists>url p. (url, p) \<in> set (quote_requests (fst (swapTokenBebop mock_client decimals_request))) \<and>
      (\<exists>amt wei. amount decimals_request = Some amt \<and> parseEther amt = Inr wei \<and>
         sell_amounts p = int_toString wei)) \<and>
   parseEther (''1'' @ ''.'' @ ''5'') = Inr (digits_val ''1'' * 10 ^ 18 + digits_val ''5'' * 10 ^ (18 - length ''5''))"
proof -
  let ?url = "''https://api.bebop.xyz/pmm/base/v3/quote''"
  let ?p = "\<lparr>buy_tokens = WETH_BASE, sell_tokens = USDC_BASE, sell_amounts = ''1500000000000000000'',
          taker_address = ''0x00000000000000000000000000000000000000aa'',
          gasless_param = False, approval_type = ''Standard''\<rparr>"
  have "quote_requests (fst (swapTokenBebop mock_client decimals_request)) = [(?url, ?p)]"
    by code_simp
  then have made: "(?url, ?p) \<in> set (quote_requests (fst (swapTokenBebop mock_client decimals_request)))"
    by simp
  have digits: "(\<forall>c\<in>set (''1'' @ ''5''). is_digit c) \<and> ''1'' @ ''5'' \<noteq> [] \<and> length ''5'' \<le> 18 \<and>
      digits_val ''1'' * 10 ^ 18 + digits_val ''5'' * 10 ^ (18 - length ''5'') < 2 ^ 511"
    by (simp add: is_digit_def digits_val_def digit_val_def)
  from sell_amount_eighteen_digits [of ?url ?p mock_client decimals_request "''1''" "''5''"]
    made digits
  show ?thesis by blast
qed

subsection \<open>Cross-chain requests\<close>

text \<open>
  C3, as stated, fails on two requests. A request without a wallet identifier whose
  destination chain 1 differs from the source chain 8453 is rejected with the error of the
  first check, \<^verbatim>\<open>walletId is required\<close>, not with the cross-chain error. A request
  with destination chain 0 and source chain 8453 is not rejected at all: the test
  \<^verbatim>\<open>toChain && toChain !== fromChain\<close> takes 0 for an absent chain, and the swap runs on
  the source chain.
\<close>

theorem cross_chain_counterexample:
  "toChain no_wallet_request = Some 1 \<and> fromChain no_wallet_request = Some 8453 \<and>
   swapTokenBebop mock_client no_wallet_request = ([], Inl (Error ''walletId is required'')) \<and>
   toChain zero_chain_request = Some 0 \<and> fromChain zero_chain_request = Some 8453 \<and>
   swapTokenBebop mock_client zero_chain_request = (scenario_calls, Inr scenario_result)"
  by code_simp

text \<open>
  C3, amended. When a destination chain other than 0 is supplied and differs from the
  source chain, the orchestrator rejects the request with one of the errors of its checks
  and has made no outbound call; when moreover the five required fields are present, the
  error is the cross-chain error.
\<close>

theorem cross_chain_rejected:
  assumes "toChain r = Some tc" and "tc \<noteq> 0" and "toChain r \<noteq> fromChain r"
  shows "fst (swapTokenBebop client r) = [] \<and>
         snd (swapTokenBebop client r) \<in> Inl ` set (validation_errors r) \<and>
         (required_present r \<longrightarrow>
            snd (swapTokenBebop client r) =
              Inl (Error ''Bebop only supports same-chain swaps. fromChain must equal toChain.''))"
proof -
  have rejected: "fst (swapTokenBebop client r) = [] \<and>
         snd (swapTokenBebop client r) \<in> Inl ` set (validation_errors r)"
    using swap_checks [of client r] assms by auto
  have "snd (swapTokenBebop client r) =
              Inl (Error ''Bebop only supports same-chain swaps. fromChain must equal toChain.'')"
    if "required_present r"
    using that assms
    by (auto simp: required_present_def truthy_def swapTokenBebop_def throw_Error_def
        split: option.splits)
  with rejected show ?thesis by blast
qed

theorem cross_chain_rejected_witness:
  "toChain cross_chain_request = Some 1 \<and> toChain cross_chain_request \<noteq> fromChain cross_chain_request \<and>
   required_present cross_chain_request \<and>
   swapTokenBebop mock_client cross_chain_request =
     ([], Inl (Error ''Bebop only supports same-chain swaps. fromChain must equal toChain.''))"
proof -
  have h: "toChain cross_chain_request = Some 1" "(1::int) \<noteq> 0"
     "toChain cross_chain_request \<noteq> fromChain cross_chain_request"
     "required_present cross_chain_request"
    by (simp_all add: cross_chain_request_def scenario_request_def required_present_def truthy_def
         WETH_BASE_def USDC_BASE_def)
  from cross_chain_rejected [OF h(1-3), of mock_client] h show ?thesis
    by (simp add: prod_eq_iff)
qed

subsection \<open>The chain table\<close>

lemma supported_keys: "join '', '' (Object_keys chains) = ''1, 10, 137, 8453, 42161, 11155111''"
  by code_simp

lemma getChainName_unsupported:
  assumes "c \<notin> {1, 8453, 137, 42161, 10, 11155111}"
  shows "getChainName c =
           Inl (Error (''Unsupported chain ID: '' @ int_toString c
                       @ ''. Supported: 1, 10, 137, 8453, 42161, 11155111''))"
proof -
  from assms have "map_of chains c = None"
    by (simp add: chains_def)
  then show ?thesis
    by (simp add: getChainName_def supported_keys)
qed

text \<open>
  C4. Each of the chain identifiers 1, 8453, 137, 42161, 10 and 11155111 is mapped to
  exactly one network name of the static table, and the quote stage \<^verbatim>\<open>getBebopQuote\<close>
  uses it: when the amount converts, its one outbound call is the request to the address
  built from that name, and an answer without an error that holds a transaction makes
  the stage return a quote with this transaction. For every other chain identifier
  \<^verbatim>\<open>getChainName\<close> throws the unsupported-chain error and the quote stage ends with
  that error without having made any outbound call; the message names the identifier in
  decimal digits (stated below \<open>10\<^sup>2\<^sup>1\<close>, where JavaScript prints a number in
  full). A swap on such a chain (the orchestrator looks the wallet address up before the
  quote stage) makes no quote request and submits no transaction.
\<close>

theorem chain_name_table:
  "getChainName 1 = Inr ''ethereum'' \<and> getChainName 8453 = Inr ''base'' \<and>
   getChainName 137 = Inr ''polygon'' \<and> getChainName 42161 = Inr ''arbitrum'' \<and>
   getChainName 10 = Inr ''optimism'' \<and> getChainName 11155111 = Inr ''sepolia'' \<and>
   (c \<in> {1, 8453, 137, 42161, 10, 11155111} \<longrightarrow>
      (\<exists>!name. getChainName c = Inr name) \<and>
      (\<exists>name. (c, name) \<in> set chains \<and> getChainName c = Inr name \<and>
         (\<forall>wei. parseEther amt = Inr wei \<longrightarrow>
            fst (getBebopQuote client walletAddress ft tt amt c gl authKey sourceId) =
              [HttpGet (quote_url name) (quote_query walletAddress ft tt wei gl)] \<and>
            (\<forall>d raw. axios_get client (quote_url name)
                        (quote_query walletAddress ft tt wei gl) = Inr d \<and>
                      \<not> truthy (data_error d) \<and> data_tx d = Some raw \<longrightarrow>
               (\<exists>q. snd (getBebopQuote client walletAddress ft tt amt c gl authKey sourceId) = Inr q \<and>
                  tx q = Some raw))))) \<and>
   (c \<notin> {1, 8453, 137, 42161, 10, 11155111} \<longrightarrow>
      (\<exists>msg. getChainName c = Inl (Error msg) \<and>
         getBebopQuote client walletAddress ft tt amt c gl authKey sourceId = ([], Inl (Error msg)) \<and>
         (\<bar>c\<bar> < 10 ^ 21 \<longrightarrow>
            msg = ''Unsupported chain ID: '' @ int_toString c
                  @ ''. Supported: 1, 10, 137, 8453, 42161, 11155111''))) \<and>
   (c \<notin> {1, 8453, 137, 42161, 10, 11155111} \<and> fromChain r = Some c \<longrightarrow>
      quote_requests (fst (swapTokenBebop client r)) = [] \<and>
      submissions (fst (swapTokenBebop client r)) = [])"
proof -
  let ?quote = "getBebopQuote client walletAddress ft tt amt c gl authKey sourceId"
  have names: "getChainName 1 = Inr ''ethereum''" "getChainName 8453 = Inr ''base''"
    "getChainName 137 = Inr ''polygon''" "getChainName 42161 = Inr ''arbitrum''"
    "getChainName 10 = Inr ''optimism''" "getChainName 11155111 = Inr ''sepolia''"
    by (simp_all add: getChainName_def chains_def)
  have one: "\<exists>!name. getChainName c = Inr name" if "c \<in> {1, 8453, 137, 42161, 10, 11155111}"
    using that names by auto
  have used: "\<exists>name. (c, name) \<in> set chains \<and> getChainName c = Inr name \<and>
         (\<forall>wei. parseEther amt = Inr wei \<longrightarrow>
            fst ?quote = [HttpGet (quote_url name) (quote_query walletAddress ft tt wei gl)] \<and>
            (\<forall>d raw. axios_get client (quote_url name)
                        (quote_query walletAddress ft tt wei gl) = Inr d \<and>
                      \<not> truthy (data_error d) \<and> data_tx d = Some raw \<longrightarrow>
               (\<exists>q. snd ?quote = Inr q \<and> tx q = Some raw)))"
    if supported: "c \<in> {1, 8453, 137, 42161, 10, 11155111}"
  proof -
    from supported have "c = 1 \<or> c = 8453 \<or> c = 137 \<or> c = 42161 \<or> c = 10 \<or> c = 11155111"
      by simp
    then have "\<exists>name. map_of chains c = Some name \<and> name \<noteq> []"
      by (elim disjE) (simp_all add: chains_def)
    then obtain name where found: "map_of chains c = Some name" "name \<noteq> []"
      by blast
    from found(1) have entry: "(c, name) \<in> set chains"
      by (rule map_of_SomeD)
    from found have name: "getChainName c = Inr name"
      by (simp add: getChainName_def)
    have request: "fst ?quote = [HttpGet (quote_url name) (quote_query walletAddress ft tt wei gl)]"
      if wei: "parseEther amt = Inr wei" for wei
    proof (cases rule: getBebopQuote_cases [of c client walletAddress ft tt amt gl authKey sourceId])
      case (unsupported e)
      with name show ?thesis by simp
    next
      case (bad_amount name' e)
      with wei show ?thesis by simp
    next
      case (http_failed name' wei' e)
      with name wei show ?thesis by simp
    next
      case (error_payload name' wei' d)
      with name wei show ?thesis by simp
    next
      case (no_tx name' wei' d)
      with name wei show ?thesis by simp
    next
      case (quoted name' wei' d)
      with name wei show ?thesis by simp
    qed
    have answer: "\<exists>q. snd ?quote = Inr q \<and> tx q = Some raw"
      if wei: "parseEther amt = Inr wei"
        and d: "axios_get client (quote_url name) (quote_query walletAddress ft tt wei gl) = Inr d"
          "\<not> truthy (data_error d)" "data_tx d = Some raw"
      for wei d raw
    proof (cases rule: getBebopQuote_cases [of c client walletAddress ft tt amt gl authKey sourceId])
      case (unsupported e)
      with name show ?thesis by simp
    next
      case (bad_amount name' e)
      with wei show ?thesis by simp
    next
      case (http_failed name' wei' e)
      with name wei d(1) show ?thesis by simp
    next
      case (error_payload name' wei' d')
      with name wei d(1,2) show ?thesis by simp
    next
      case (no_tx name' wei' d')
      with name wei d(1,3) show ?thesis by simp
    next
      case (quoted name' wei' d')
      with name wei d(1) have "d' = d" by simp
      with quoted(6) d(3) show ?thesis by simp
    qed
    from entry name request answer show ?thesis by blast
  qed
  have none: "\<exists>msg. getChainName c = Inl (Error msg) \<and> ?quote = ([], Inl (Error msg)) \<and>
         (\<bar>c\<bar> < 10 ^ 21 \<longrightarrow>
            msg = ''Unsupported chain ID: '' @ int_toString c
                  @ ''. Supported: 1, 10, 137, 8453, 42161, 11155111'')"
    if "c \<notin> {1, 8453, 137, 42161, 10, 11155111}"
    using getChainName_unsupported [OF that] by (simp add: getBebopQuote_def)
  have swap: "quote_requests (fst (swapTokenBebop client r)) = [] \<and>
      submissions (fst (swapTokenBebop client r)) = []"
    if "c \<notin> {1, 8453, 137, 42161, 10, 11155111}" and "fromChain r = Some c"
    using getChainName_unsupported [OF that(1)] that(2)
    by (cases rule: swap_outcomes [of client r]) simp_all
  define A where "A \<longleftrightarrow> (\<exists>!name. getChainName c = Inr name)"
  define B where "B \<longleftrightarrow> (\<exists>name. (c, name) \<in> set chains \<and> getChainName c = Inr name \<and>
         (\<forall>wei. parseEther amt = Inr wei \<longrightarrow>
            fst ?quote = [HttpGet (quote_url name) (quote_query walletAddress ft tt wei gl)] \<and>
            (\<forall>d raw. axios_get client (quote_url name)
                        (quote_query walletAddress ft tt wei gl) = Inr d \<and>
                      \<not> truthy (data_error d) \<and> data_tx d = Some raw \<longrightarrow>
               (\<exists>q. snd ?quote = Inr q \<and> tx q = Some raw))))"
  define N where "N \<longleftrightarrow> (\<exists>msg. getChainName c = Inl (Error msg) \<and> ?quote = ([], Inl (Error msg)) \<and>
         (\<bar>c\<bar> < 10 ^ 21 \<longrightarrow>
            msg = ''Unsupported chain ID: '' @ int_toString c
                  @ ''. Supported: 1, 10, 137, 8453, 42161, 11155111''))"
  define W where "W \<longleftrightarrow> quote_requests (fst (swapTokenBebop client r)) = [] \<and>
      submissions (fst (swapTokenBebop client r)) = []"
  define S :: "int set" where "S = {1, 8453, 137, 42161, 10, 11155111}"
  have a: "c \<in> S \<longrightarrow> A \<and> B"
    unfolding A_def B_def S_def using one used by (intro impI conjI)
  have n: "c \<notin> S \<longrightarrow> N"
    unfolding N_def S_def using none by (intro impI)
  have w: "c \<notin> S \<and> fromChain r = Some c \<longrightarrow> W"
    unfolding W_def S_def using swap by (intro impI) (elim conjE)
  from names(1) names(2) names(3) names(4) names(5) names(6) a n w
  have "getChainName 1 = Inr ''ethereum'' \<and> getChainName 8453 = Inr ''base'' \<and>
   getChainName 137 = Inr ''polygon'' \<and> getChainName 42161 = Inr ''arbitrum'' \<and>
   getChainName 10 = Inr ''optimism'' \<and> getChainName 11155111 = Inr ''sepolia'' \<and>
   (c \<in> S \<longrightarrow> A \<and> B) \<and> (c \<notin> S \<longrightarrow> N) \<and> (c \<notin> S \<and> fromChain r = Some c \<longrightarrow> W)"
    by (intro conjI)
  then show ?thesis
    unfolding A_def B_def N_def W_def S_def .
qed

theorem chain_name_table_witness:
  "(\<exists>!name. getChainName 8453 = Inr name) \<and> getChainName 8453 = Inr ''base'' \<and>
   parseEther ''1'' = Inr 1000000000000000000 \<and>
   fst (getBebopQuote mock_client ''0x00000000000000000000000000000000000000aa'' WETH_BASE USDC_BASE
          ''1'' 8453 False ''bebop-auth-key'' ''privy-integration'') =
     [HttpGet ''https://api.bebop.xyz/pmm/base/v3/quote''
        \<lparr>buy_tokens = USDC_BASE, sell_tokens = WETH_BASE, sell_amounts = ''1000000000000000000'',
         taker_address = ''0x00000000000000000000000000000000000000aa'',
         gasless_param = False, approval_type = ''Standard''\<rparr>] \<and>
   (\<exists>q. snd (getBebopQuote mock_client ''0x00000000000000000000000000000000000000aa'' WETH_BASE
               USDC_BASE ''1'' 8453 False ''bebop-auth-key'' ''privy-integration'') = Inr q \<and>
      tx q = Some stub_tx) \<and>
   getBebopQuote mock_client ''0x00000000000000000000000000000000000000aa'' WETH_BASE USDC_BASE ''1'' 5 False
       ''bebop-auth-key'' ''privy-integration'' =
     ([], Inl (Error ''Unsupported chain ID: 5. Supported: 1, 10, 137, 8453, 42161, 11155111'')) \<and>
   fromChain unsupported_chain_request = Some 5 \<and>
   quote_requests (fst (swapTokenBebop mock_client unsupported_chain_request)) = [] \<and>
   submissions (fst (swapTokenBebop mock_client unsupported_chain_request)) = []"
proof -
  let ?a = "''0x00000000000000000000000000000000000000aa''"
  let ?k = "''bebop-auth-key''" and ?s = "''privy-integration''"
  have five: "int_toString 5 = ''5''" and wei: "parseEther ''1'' = Inr 1000000000000000000"
    and shown: "int_toString 1000000000000000000 = ''1000000000000000000''"
    by code_simp+
  have chain: "fromChain unsupported_chain_request = Some 5"
    by (simp add: unsupported_chain_request_def)
  have base: "getChainName 8453 = Inr ''base''"
    using chain_name_table [where c = 8453] by simp
  have answer: "axios_get mock_client (quote_url ''base'')
        (quote_query ?a WETH_BASE USDC_BASE 1000000000000000000 False) = Inr mock_quote"
      "\<not> truthy (data_error mock_quote)" "data_tx mock_quote = Some stub_tx"
    by (simp_all add: mock_client_def mock_quote_def truthy_def)
  note table = chain_name_table [where c = 8453 and client = mock_client and walletAddress = ?a
        and ft = WETH_BASE and tt = USDC_BASE and amt = "''1''" and gl = False
        and authKey = ?k and sourceId = ?s]
  have "(8453::int) \<in> {1, 8453, 137, 42161, 10, 11155111} \<longrightarrow>
      (\<exists>!name. getChainName 8453 = Inr name) \<and>
      (\<exists>name. (8453, name) \<in> set chains \<and> getChainName 8453 = Inr name \<and>
         (\<forall>wei. parseEther ''1'' = Inr wei \<longrightarrow>
            fst (getBebopQuote mock_client ?a WETH_BASE USDC_BASE ''1'' 8453 False ?k ?s) =
              [HttpGet (quote_url name) (quote_query ?a WETH_BASE USDC_BASE wei False)] \<and>
            (\<forall>d raw. axios_get mock_client (quote_url name)
                        (quote_query ?a WETH_BASE USDC_BASE wei False) = Inr d \<and>
                      \<not> truthy (data_error d) \<and> data_tx d = Some raw \<longrightarrow>
               (\<exists>q. snd (getBebopQuote mock_client ?a WETH_BASE USDC_BASE ''1'' 8453 False ?k ?s) = Inr q \<and>
                  tx q = Some raw))))"
    by (rule table [THEN conjunct2, THEN conjunct2, THEN conjunct2, THEN conjunct2,
          THEN conjunct2, THEN conjunct2, THEN conjunct1])
  then obtain name where unique: "\<exists>!name. getChainName 8453 = Inr name"
    and name: "getChainName 8453 = Inr name"
    and stage: "\<forall>wei. parseEther ''1'' = Inr wei \<longrightarrow>
            fst (getBebopQuote mock_client ?a WETH_BASE USDC_BASE ''1'' 8453 False ?k ?s) =
              [HttpGet (quote_url name) (quote_query ?a WETH_BASE USDC_BASE wei False)] \<and>
            (\<forall>d raw. axios_get mock_client (quote_url name)
                        (quote_query ?a WETH_BASE USDC_BASE wei False) = Inr d \<and>
                      \<not> truthy (data_error d) \<and> data_tx d = Some raw \<longrightarrow>
               (\<exists>q. snd (getBebopQuote mock_client ?a WETH_BASE USDC_BASE ''1'' 8453 False ?k ?s) = Inr q \<and>
                  tx q = Some raw))"
    by auto
  from name base have "name = ''base''" by simp
  with stage wei answer
  have supported: "fst (getBebopQuote mock_client ?a WETH_BASE USDC_BASE ''1'' 8453 False ?k ?s) =
        [HttpGet (quote_url ''base'') (quote_query ?a WETH_BASE USDC_BASE 1000000000000000000 False)] \<and>
      (\<exists>q. snd (getBebopQuote mock_client ?a WETH_BASE USDC_BASE ''1'' 8453 False ?k ?s) = Inr q \<and>
         tx q = Some stub_tx)"
    by blast
  have unsupported: "getBebopQuote mock_client ?a WETH_BASE USDC_BASE ''1'' 5 False ?k ?s =
       ([], Inl (Error ''Unsupported chain ID: 5. Supported: 1, 10, 137, 8453, 42161, 11155111'')) \<and>
     quote_requests (fst (swapTokenBebop mock_client unsupported_chain_request)) = [] \<and>
     submissions (fst (swapTokenBebop mock_client unsupported_chain_request)) = []"
    using chain chain_name_table [where c = 5 and client = mock_client
        and r = unsupported_chain_request and walletAddress = ?a
        and ft = WETH_BASE and tt = USDC_BASE and amt = "''1''" and gl = False
        and authKey = ?k and sourceId = ?s]
    by (auto simp: five)
  from unique supported unsupported base wei chain show ?thesis
    by (simp add: shown)
qed

subsection \<open>An error payload in the quote response\<close>

text \<open>
  C5. When the quote request a swap makes is answered with a response that contains an
  error payload (an \<^verbatim>\<open>error\<close> field such as \<^verbatim>\<open>{error: "..."}\<close>, a string
  with content), the swap fails with the quote error, whose message quotes the payload,
  and no transaction has been submitted to the custody service.
\<close>

theorem quote_error_stops_swap:
  assumes made: "(url, p) \<in> set (quote_requests (fst (swapTokenBebop client r)))"
    and answer: "axios_get client url p = Inr d" "data_error d = Some e" "e \<noteq> []"
  shows "snd (swapTokenBebop client r) = Inl (Error (''Bebop quote error: '' @ e)) \<and>
         submissions (fst (swapTokenBebop client r)) = []"
proof (cases rule: swap_outcomes [of client r])
  case rejected
  with made show ?thesis by simp
next
  case (stopped wid e')
  with made show ?thesis by simp
next
  case (quote_failed wid ft tt amt fc w name wei e')
  from made have p: "url = quote_url name"
      "p = quote_query (wallet_address w) ft tt wei (gasless r)"
    unfolding quote_failed(9) by simp_all
  from answer have "truthy (data_error d)" "js_str (data_error d) = e"
    by (simp_all add: truthy_def js_str_def)
  with quote_failed(10) answer(1) have "e' = Error (''Bebop quote error: '' @ e)"
    unfolding p by auto
  then show ?thesis
    unfolding quote_failed(9) by simp
next
  case (submit_failed wid ft tt amt fc w name wei d' raw e')
  from made have p: "url = quote_url name"
      "p = quote_query (wallet_address w) ft tt wei (gasless r)"
    unfolding submit_failed(13) by simp_all
  from answer have "truthy (data_error d)" by (simp add: truthy_def)
  with submit_failed(9,10) answer(1) show ?thesis
    unfolding p by simp
next
  case (submitted wid ft tt amt fc w name wei d' raw h)
  from made have p: "url = quote_url name"
      "p = quote_query (wallet_address w) ft tt wei (gasless r)"
    unfolding submitted(13) by simp_all
  from answer have "truthy (data_error d)" by (simp add: truthy_def)
  with submitted(9,10) answer(1) show ?thesis
    unfolding p by simp
qed

theorem quote_error_stops_swap_witness:
  "swapTokenBebop error_client scenario_request =
     ([WalletGet ''w1'',
       HttpGet ''https://api.bebop.xyz/pmm/base/v3/quote''
         \<lparr>buy_tokens = USDC_BASE, sell_tokens = WETH_BASE, sell_amounts = ''1000000000000000000'',
          taker_address = ''0x00000000000000000000000000000000000000aa'',
          gasless_param = False, approval_type = ''Standard''\<rparr>],
      Inl (Error ''Bebop quote error: insufficient liquidity''))"
proof -
  let ?url = "''https://api.bebop.xyz/pmm/base/v3/quote''"
  let ?p = "\<lparr>buy_tokens = USDC_BASE, sell_tokens = WETH_BASE, sell_amounts = ''1000000000000000000'',
          taker_address = ''0x00000000000000000000000000000000000000aa'',
          gasless_param = False, approval_type = ''Standard''\<rparr>"
  have calls: "fst (swapTokenBebop error_client scenario_request) = [WalletGet ''w1'', HttpGet ?url ?p]"
    by code_simp
  have made: "(?url, ?p) \<in> set (quote_requests (fst (swapTokenBebop error_client scenario_request)))"
    unfolding calls by simp
  have answer: "axios_get error_client ?url ?p = Inr error_quote"
      "data_error error_quote = Some ''insufficient liquidity''" "''insufficient liquidity'' \<noteq> []"
    by (simp_all add: error_client_def error_quote_def)
  from quote_error_stops_swap [OF made answer] calls show ?thesis
    by (simp add: prod_eq_iff)
qed

subsection \<open>Missing fields and malformed addresses\<close>



subsection \<open>The result of a successful swap\<close>

text \<open>
  C7. When a swap completes, its result has the success flag set and carries the hash the
  custody service returned for the one transaction submitted, the two token addresses of
  the request, the sell amount (the converted input amount) and the buy amount of the
  quote (the buy amount of the response or, when that is missing, that of its
  transaction). In the end-to-end scenario (amount 1, a quote with sell amount
  1000000000000000000 and a transaction stub, the hash 0xabc) the result is
  \<^verbatim>\<open>{success: true, transactionHash: "0xabc", quote: {sellAmount: "1000000000000000000", ...}}\<close>.
\<close>

theorem swap_result_assembled:
  "(swapTokenBebop client r = (calls, Inr res) \<longrightarrow>
      success res \<and>
      (\<exists>req h. submissions calls = [req] \<and> walletApi_rpc client req = Inr h \<and>
          transactionHash res = data_hash h) \<and>
      (\<exists>url p d raw amt wei. quote_requests calls = [(url, p)] \<and>
          axios_get client url p = Inr d \<and> data_tx d = Some raw \<and>
          amount r = Some amt \<and> parseEther amt = Inr wei \<and>
          res_sellAmount (quote res) = int_toString wei \<and>
          res_buyAmount (quote res) = js_or (data_buyAmount d) (raw_buyAmount raw)) \<and>
      fromToken r = Some (res_fromToken (quote res)) \<and>
      toToken r = Some (res_toToken (quote res))) \<and>
   swapTokenBebop mock_client scenario_request =
     (scenario_calls,
      Inr \<lparr>success = True, transactionHash = ''0xabc'',
           quote = \<lparr>res_fromToken = WETH_BASE, res_toToken = USDC_BASE,
                     res_sellAmount = ''1000000000000000000'',
                     res_buyAmount = Some ''2500000000''\<rparr>\<rparr>)"
proof -
  have general: "success res \<and>
      (\<exists>req h. submissions calls = [req] \<and> walletApi_rpc client req = Inr h \<and>
          transactionHash res = data_hash h) \<and>
      (\<exists>url p d raw amt wei. quote_requests calls = [(url, p)] \<and>
          axios_get client url p = Inr d \<and> data_tx d = Some raw \<and>
          amount r = Some amt \<and> parseEther amt = Inr wei \<and>
          res_sellAmount (quote res) = int_toString wei \<and>
          res_buyAmount (quote res) = js_or (data_buyAmount d) (raw_buyAmount raw)) \<and>
      fromToken r = Some (res_fromToken (quote res)) \<and>
      toToken r = Some (res_toToken (quote res))"
    if ok: "swapTokenBebop client r = (calls, Inr res)"
  proof (cases rule: swap_outcomes [of client r])
    case rejected
    with ok show ?thesis by auto
  next
    case (stopped wid e)
    with ok show ?thesis by simp
  next
    case (quote_failed wid ft tt amt fc w name wei e)
    with ok show ?thesis by simp
  next
    case (submit_failed wid ft tt amt fc w name wei d raw e)
    with ok show ?thesis by simp
  next
    case (submitted wid ft tt amt fc w name wei d raw h)
    from ok submitted(13) have calls: "calls = [WalletGet wid,
             HttpGet (quote_url name) (quote_query (wallet_address w) ft tt wei (gasless r)),
             WalletRpc (settlement_request wid raw fc)]"
      and res: "res = \<lparr>success = True, transactionHash = data_hash h,
                 quote = \<lparr>res_fromToken = ft, res_toToken = tt,
                           res_sellAmount = int_toString wei,
                           res_buyAmount = js_or (data_buyAmount d) (raw_buyAmount raw)\<rparr>\<rparr>"
      by simp_all
    have "success res" by (simp add: res)
    moreover have "\<exists>req h. submissions calls = [req] \<and> walletApi_rpc client req = Inr h \<and>
          transactionHash res = data_hash h"
      using submitted(12) by (simp add: calls res)
    moreover have "\<exists>url p d raw amt wei. quote_requests calls = [(url, p)] \<and>
          axios_get client url p = Inr d \<and> data_tx d = Some raw \<and>
          amount r = Some amt \<and> parseEther amt = Inr wei \<and>
          res_sellAmount (quote res) = int_toString wei \<and>
          res_buyAmount (quote res) = js_or (data_buyAmount d) (raw_buyAmount raw)"
      using submitted(4,8,9,11) by (simp add: calls res)
    moreover have "fromToken r = Some (res_fromToken (quote res))"
      "toToken r = Some (res_toToken (quote res))"
      using submitted(2,3) by (simp_all add: res)
    ultimately show ?thesis by blast
  qed
  have scenario: "swapTokenBebop mock_client scenario_request =
     (scenario_calls,
      Inr \<lparr>success = True, transactionHash = ''0xabc'',
           quote = \<lparr>res_fromToken = WETH_BASE, res_toToken = USDC_BASE,
                     res_sellAmount = ''1000000000000000000'',
                     res_buyAmount = Some ''2500000000''\<rparr>\<rparr>)"
    by (simp add: scenario_run scenario_result_def)
  from general scenario show ?thesis by blast
qed

theorem swap_result_assembled_witness:
  "swapTokenBebop mock_client scenario_request = (scenario_calls, Inr scenario_result) \<and>
   success scenario_result \<and>
   (\<exists>req h. submissions scenario_calls = [req] \<and> walletApi_rpc mock_client req = Inr h \<and>
          transactionHash scenario_result = data_hash h) \<and>
   (\<exists>url p d raw amt wei. quote_requests scenario_calls = [(url, p)] \<and>
          axios_get mock_client url p = Inr d \<and> data_tx d = Some raw \<and>
          amount scenario_request = Some amt \<and> parseEther amt = Inr wei \<and>
          res_sellAmount (quote scenario_result) = int_toString wei \<and>
          res_buyAmount (quote scenario_result) = js_or (data_buyAmount d) (raw_buyAmount raw))"
  using swap_result_assembled [of mock_client scenario_request scenario_calls scenario_result]
    scenario_run
  by blast

subsection \<open>The settlement submission\<close>

text \<open>
  C8. \<^verbatim>\<open>executeSwap\<close> submits one transaction: for the wallet it was given, with
  method \<^verbatim>\<open>eth_sendTransaction\<close>, on the chain \<^verbatim>\<open>eip155:\<close> followed by the
  decimal numeral of the chain identifier, with the destination and call data of the
  prepared transaction and its value, or \<^verbatim>\<open>0x0\<close> when the prepared transaction has
  none (or an empty one); it returns the hash the custody service answers, or the error
  the service throws. Every transaction a swap submits has this method, the wallet of the
  request and the source chain of the request.
\<close>

theorem settlement_submission:
  "(\<exists>req. fst (executeSwap client wid (Some raw) chainId) = [WalletRpc req] \<and>
      rpc_walletId req = wid \<and> rpc_method req = ''eth_sendTransaction'' \<and>
      rpc_caip2 req = ''eip155:'' @ int_toString chainId \<and>
      tx_to (rpc_transaction req) = raw_to raw \<and>
      tx_data (rpc_transaction req) = raw_data raw \<and>
      tx_value (rpc_transaction req) =
        (case raw_value raw of None \<Rightarrow> ''0x0'' | Some v \<Rightarrow> if v = [] then ''0x0'' else v) \<and>
      snd (executeSwap client wid (Some raw) chainId) =
        (case walletApi_rpc client req of Inl e \<Rightarrow> Inl e | Inr h \<Rightarrow> Inr (data_hash h))) \<and>
   (0 \<le> chainId \<longrightarrow> digits_val (int_toString chainId) = chainId) \<and>
   getCAIP2 8453 = ''eip155:8453'' \<and>
   (\<forall>req\<in>set (submissions (fst (swapTokenBebop client r))).
      rpc_method req = ''eth_sendTransaction'' \<and>
      (\<exists>wid fc. walletId r = Some wid \<and> fromChain r = Some fc \<and>
         rpc_walletId req = wid \<and> rpc_caip2 req = ''eip155:'' @ int_toString fc))"
proof -
  have submit: "\<exists>req. fst (executeSwap client wid (Some raw) chainId) = [WalletRpc req] \<and>
      rpc_walletId req = wid \<and> rpc_method req = ''eth_sendTransaction'' \<and>
      rpc_caip2 req = ''eip155:'' @ int_toString chainId \<and>
      tx_to (rpc_transaction req) = raw_to raw \<and>
      tx_data (rpc_transaction req) = raw_data raw \<and>
      tx_value (rpc_transaction req) =
        (case raw_value raw of None \<Rightarrow> ''0x0'' | Some v \<Rightarrow> if v = [] then ''0x0'' else v) \<and>
      snd (executeSwap client wid (Some raw) chainId) =
        (case walletApi_rpc client req of Inl e \<Rightarrow> Inl e | Inr h \<Rightarrow> Inr (data_hash h))"
    by (simp add: executeSwap_Some getCAIP2_def or_default_def)
  have base: "getCAIP2 8453 = ''eip155:8453''"
    by code_simp
  have swap: "rpc_method req = ''eth_sendTransaction'' \<and>
      (\<exists>wid fc. walletId r = Some wid \<and> fromChain r = Some fc \<and>
         rpc_walletId req = wid \<and> rpc_caip2 req = ''eip155:'' @ int_toString fc)"
    if sub: "req \<in> set (submissions (fst (swapTokenBebop client r)))" for req
  proof (cases rule: swap_outcomes [of client r])
    case rejected
    with sub show ?thesis by simp
  next
    case (stopped wid e)
    with sub show ?thesis by simp
  next
    case (quote_failed wid ft tt amt fc w name wei e)
    with sub show ?thesis by simp
  next
    case (submit_failed wid ft tt amt fc w name wei d raw e)
    from sub have "req = settlement_request wid raw fc"
      unfolding submit_failed(13) by simp
    with submit_failed(1,5) show ?thesis by (simp add: getCAIP2_def)
  next
    case (submitted wid ft tt amt fc w name wei d raw h)
    from sub have "req = settlement_request wid raw fc"
      unfolding submitted(13) by simp
    with submitted(1,5) show ?thesis by (simp add: getCAIP2_def)
  qed
  from submit int_toString_numeral [of chainId] base swap show ?thesis
    by blast
qed

theorem settlement_submission_witness:
  "(0::int) \<le> 8453 \<and> digits_val (int_toString 8453) = 8453 \<and>
   executeSwap mock_client ''w1'' (Some stub_tx) 8453 =
     ([WalletRpc \<lparr>rpc_walletId = ''w1'', rpc_caip2 = ''eip155:8453'',
          rpc_method = ''eth_sendTransaction'',
          rpc_transaction = \<lparr>tx_to = BEBOP_SETTLEMENT, tx_data = ''0x4dcebcba'', tx_value = ''0x0''\<rparr>,
          rpc_sponsor = None\<rparr>],
      Inr ''0xabc'') \<and>
   (\<exists>req. submissions (fst (swapTokenBebop mock_client scenario_request)) = [req] \<and>
      rpc_method req = ''eth_sendTransaction'' \<and>
      (\<exists>wid fc. walletId scenario_request = Some wid \<and> fromChain scenario_request = Some fc \<and>
         rpc_walletId req = wid \<and> rpc_caip2 req = ''eip155:'' @ int_toString fc))"
proof -
  have run: "executeSwap mock_client ''w1'' (Some stub_tx) 8453 =
     ([WalletRpc \<lparr>rpc_walletId = ''w1'', rpc_caip2 = ''eip155:8453'',
          rpc_method = ''eth_sendTransaction'',
          rpc_transaction = \<lparr>tx_to = BEBOP_SETTLEMENT, tx_data = ''0x4dcebcba'', tx_value = ''0x0''\<rparr>,
          rpc_sponsor = None\<rparr>],
      Inr ''0xabc'')"
    by code_simp
  obtain req where one: "submissions (fst (swapTokenBebop mock_client scenario_request)) = [req]"
    unfolding scenario_run by (simp add: scenario_calls_def)
  then have "req \<in> set (submissions (fst (swapTokenBebop mock_client scenario_request)))"
    by simp
  with settlement_submission [of mock_client "''w1''" stub_tx 8453 scenario_request] run one
  show ?thesis by simp
qed

subsection \<open>The sell amount of the result\<close>

text \<open>The sell amount a response of the quote service may carry is never read.\<close>

lemma getBebopQuote_ignores_sellAmount:
  "getBebopQuote
     (client\<lparr>axios_get := \<lambda>url p. map_sum id (data_sellAmount_update (f url p)) (axios_get client url p)\<rparr>)
     a ft tt amt c gl k s
   = getBebopQuote client a ft tt amt c gl k s"
  by (simp add: getBebopQuote_def Let_def split: sum.splits option.splits)

lemma try_ignores_sellAmount:
  "swapTokenBebop_try
     (client\<lparr>axios_get := \<lambda>url p. map_sum id (data_sellAmount_update (f url p)) (axios_get client url p)\<rparr>)
     wid ft tt amt fc gl skip k s
   = swapTokenBebop_try client wid ft tt amt fc gl skip k s"
  by (simp add: try_unfold getBebopQuote_ignores_sellAmount executeSwap_def
      cong: sum.case_cong prod.case_cong option.case_cong)

lemma swap_ignores_sellAmount:
  "swapTokenBebop
     (client\<lparr>axios_get := \<lambda>url p. map_sum id (data_sellAmount_update (f url p)) (axios_get client url p)\<rparr>) r
   = swapTokenBebop client r"
  by (simp add: swapTokenBebop_def try_ignores_sellAmount cong: option.case_cong if_cong)

text \<open>
  C9. In the result of a successful swap the sell amount is the text of the integer
  \<^verbatim>\<open>parseEther\<close> makes of the input amount; and replacing the sell amount in the
  responses of the quote service by anything at all changes neither the calls nor the
  result of any swap.
\<close>

theorem sell_amount_computed_locally:
  "(swapTokenBebop client r = (calls, Inr res) \<longrightarrow>
      (\<exists>amt wei. amount r = Some amt \<and> parseEther amt = Inr wei \<and>
         res_sellAmount (quote res) = int_toString wei)) \<and>
   swapTokenBebop
     (client\<lparr>axios_get := \<lambda>url p. map_sum id (data_sellAmount_update (f url p)) (axios_get client url p)\<rparr>) r
   = swapTokenBebop client r"
proof -
  have "\<exists>amt wei. amount r = Some amt \<and> parseEther amt = Inr wei \<and>
         res_sellAmount (quote res) = int_toString wei"
    if ok: "swapTokenBebop client r = (calls, Inr res)"
  proof (cases rule: swap_outcomes [of client r])
    case rejected
    with ok show ?thesis by auto
  next
    case (stopped wid e)
    with ok show ?thesis by simp
  next
    case (quote_failed wid ft tt amt fc w name wei e)
    with ok show ?thesis by simp
  next
    case (submit_failed wid ft tt amt fc w name wei d raw e)
    with ok show ?thesis by simp
  next
    case (submitted wid ft tt amt fc w name wei d raw h)
    from ok submitted(13) have "res_sellAmount (quote res) = int_toString wei"
      by auto
    with submitted(4,8) show ?thesis by simp
  qed
  with swap_ignores_sellAmount [where client = client and f = f and r = r] show ?thesis by blast
qed

theorem sell_amount_computed_locally_witness:
  "swapTokenBebop mock_client scenario_request = (scenario_calls, Inr scenario_result) \<and>
   (\<exists>amt wei. amount scenario_request = Some amt \<and> parseEther amt = Inr wei \<and>
         res_sellAmount (quote scenario_result) = int_toString wei) \<and>
   swapTokenBebop
     (mock_client\<lparr>axios_get := \<lambda>url p. map_sum id (data_sellAmount_update (\<lambda>v. Some ''7''))
         (axios_get mock_client url p)\<rparr>) scenario_request
   = (scenario_calls, Inr scenario_result)"
  using sell_amount_computed_locally
    [where client = mock_client and r = scenario_request and calls = scenario_calls
       and res = scenario_result and f = "\<lambda>url p v. Some ''7''"]
    scenario_run
  by simp

subsection \<open>The gasless flag\<close>

lemma try_nonempty: "fst (swapTokenBebop_try client wid ft tt amt fc gl skip k s) \<noteq> []"
  by (cases rule: try_cases [of client wid ft tt amt fc gl skip k s]) simp_all

lemma swap_gasless_cases:
  fixes client r g
  defines "S \<equiv> swapTokenBebop client r" and "S' \<equiv> swapTokenBebop client (r\<lparr>gasless := g\<rparr>)"
  obtains (both_rejected) "fst S = []" "fst S' = []"
  | (both_run) wid ft tt amt fc where "walletId r = Some wid" "fromChain r = Some fc"
      "S = swapTokenBebop_try client wid ft tt amt fc (gasless r) (skipApproval r)
             (or_default (env_BEBOP_AUTH_KEY client) ''bebop-auth-key'')
             (or_default (env_BEBOP_SOURCE_ID client) ''privy-integration'')"
      "S' = swapTokenBebop_try client wid ft tt amt fc g (skipApproval r)
             (or_default (env_BEBOP_AUTH_KEY client) ''bebop-auth-key'')
             (or_default (env_BEBOP_SOURCE_ID client) ''privy-integration'')"
proof -
  let ?r' = "r\<lparr>gasless := g\<rparr>"
  consider (rej) "fst S = []"
    | (run) wid ft tt amt fc where "walletId r = Some wid" "wid \<noteq> []"
        "fromToken r = Some ft" "ft \<noteq> []" "toToken r = Some tt" "tt \<noteq> []"
        "amount r = Some amt" "amt \<noteq> []" "fromChain r = Some fc" "fc \<noteq> 0"
        "toChain r = None \<or> toChain r = Some 0 \<or> toChain r = Some fc"
        "ethers_isAddress client ft" "ethers_isAddress client tt"
    unfolding S_def using swap_checks [of client r] by blast
  then show ?thesis
  proof cases
    case rej
    consider (rej') "fst S' = []"
      | (run') wid ft tt amt fc where "walletId ?r' = Some wid" "wid \<noteq> []"
          "fromToken ?r' = Some ft" "ft \<noteq> []" "toToken ?r' = Some tt" "tt \<noteq> []"
          "amount ?r' = Some amt" "amt \<noteq> []" "fromChain ?r' = Some fc" "fc \<noteq> 0"
          "toChain ?r' = None \<or> toChain ?r' = Some 0 \<or> toChain ?r' = Some fc"
          "ethers_isAddress client ft" "ethers_isAddress client tt"
      unfolding S'_def using swap_checks [of client ?r'] by blast
    then show ?thesis
    proof cases
      case rej'
      with rej show ?thesis by (rule both_rejected)
    next
      case (run' wid ft tt amt fc)
      then have "S = swapTokenBebop_try client wid ft tt amt fc (gasless r) (skipApproval r)
             (or_default (env_BEBOP_AUTH_KEY client) ''bebop-auth-key'')
             (or_default (env_BEBOP_SOURCE_ID client) ''privy-integration'')"
        unfolding S_def by (intro swap_run) simp_all
      with rej try_nonempty show ?thesis by simp
    qed
  next
    case (run wid ft tt amt fc)
    then have "S = swapTokenBebop_try client wid ft tt amt fc (gasless r) (skipApproval r)
             (or_default (env_BEBOP_AUTH_KEY client) ''bebop-auth-key'')
             (or_default (env_BEBOP_SOURCE_ID client) ''privy-integration'')"
      unfolding S_def by (intro swap_run) simp_all
    moreover from run
    have "S' = swapTokenBebop_try client wid ft tt amt fc (gasless ?r') (skipApproval ?r')
             (or_default (env_BEBOP_AUTH_KEY client) ''bebop-auth-key'')
             (or_default (env_BEBOP_SOURCE_ID client) ''privy-integration'')"
      unfolding S'_def by (intro swap_run) simp_all
    ultimately show ?thesis
      using run(1,9) by (intro both_run [of wid fc ft tt amt]) simp_all
  qed
qed

lemma getBebopQuote_requests:
  "quote_requests (fst (getBebopQuote client a ft tt amt c gl k s)) =
     (case getChainName c of
        Inl e \<Rightarrow> []
      | Inr name \<Rightarrow>
         (case parseEther amt of
            Inl e \<Rightarrow> []
          | Inr wei \<Rightarrow> [(quote_url name, quote_query a ft tt wei gl)]))"
proof (cases rule: getBebopQuote_cases [of c client a ft tt amt gl k s])
  case (unsupported e)
  then show ?thesis by simp
next
  case (bad_amount name e)
  then show ?thesis by simp
next
  case (http_failed name wei e)
  show ?thesis
    unfolding http_failed(4) by (simp add: http_failed(1,2))
next
  case (error_payload name wei d)
  show ?thesis
    unfolding error_payload(5) by (simp add: error_payload(1,2))
next
  case (no_tx name wei d)
  show ?thesis
    unfolding no_tx(7) by (simp add: no_tx(1,2))
next
  case (quoted name wei d)
  show ?thesis
    unfolding quoted(6) by (simp add: quoted(1,2))
qed

lemma try_quote_requests:
  "quote_requests (fst (swapTokenBebop_try client wid ft tt amt fc gl skip k s)) =
     (case wallets_get client wid of
        Inl e \<Rightarrow> []
      | Inr w \<Rightarrow>
         (case getChainName fc of
            Inl e \<Rightarrow> []
          | Inr name \<Rightarrow>
             (case parseEther amt of
                Inl e \<Rightarrow> []
              | Inr wei \<Rightarrow> [(quote_url name, quote_query (wallet_address w) ft tt wei gl)])))"
proof (cases rule: try_cases [of client wid ft tt amt fc gl skip k s])
  case (unresolved e)
  then show ?thesis by simp
next
  case (quote_stage_failed w t e)
  with getBebopQuote_requests [of client "wallet_address w" ft tt amt fc gl k s]
  show ?thesis by simp
next
  case (no_prepared_tx w t q)
  with getBebopQuote_requests [of client "wallet_address w" ft tt amt fc gl k s]
  show ?thesis by simp
next
  case (rpc_failed w t q raw e)
  with getBebopQuote_requests [of client "wallet_address w" ft tt amt fc gl k s]
  show ?thesis by simp
next
  case (rpc_done w t q raw d)
  with getBebopQuote_requests [of client "wallet_address w" ft tt amt fc gl k s]
  show ?thesis by simp
qed

lemma swap_quote_requests_gasless:
  "map (\<lambda>(url, p). (url, p\<lparr>gasless_param := False\<rparr>))
     (quote_requests (fst (swapTokenBebop client r))) =
   map (\<lambda>(url, p). (url, p\<lparr>gasless_param := False\<rparr>))
     (quote_requests (fst (swapTokenBebop client (r\<lparr>gasless := g\<rparr>))))"
proof (cases rule: swap_gasless_cases [of client r g])
  case both_rejected
  then show ?thesis by simp
next
  case (both_run wid ft tt amt fc)
  show ?thesis
    unfolding both_run(3,4) try_quote_requests
    by (simp split: sum.splits)
qed

lemma swap_submissions_of_tx:
  assumes answered: "\<forall>(url, p)\<in>set (quote_requests (fst (swapTokenBebop client r))).
      \<exists>d. axios_get client url p = Inr d \<and> \<not> truthy (data_error d) \<and> data_tx d = T"
  shows "submissions (fst (swapTokenBebop client r)) =
     (if quote_requests (fst (swapTokenBebop client r)) = [] then []
      else case (walletId r, fromChain r, T) of
             (Some wid, Some fc, Some raw) \<Rightarrow> [settlement_request wid raw fc]
           | _ \<Rightarrow> [])"
proof (cases rule: swap_outcomes [of client r])
  case rejected
  then show ?thesis by simp
next
  case (stopped wid e)
  then show ?thesis by simp
next
  case (quote_failed wid ft tt amt fc w name wei e)
  let ?p = "quote_query (wallet_address w) ft tt wei (gasless r)"
  from answered obtain d where d: "axios_get client (quote_url name) ?p = Inr d"
      "\<not> truthy (data_error d)" "data_tx d = T"
    unfolding quote_failed(9) by auto
  with quote_failed(10) have "T = None" by auto
  then show ?thesis
    unfolding quote_failed(9) by (simp split: option.splits)
next
  case (submit_failed wid ft tt amt fc w name wei d raw e)
  let ?p = "quote_query (wallet_address w) ft tt wei (gasless r)"
  from answered obtain d' where "axios_get client (quote_url name) ?p = Inr d'" "data_tx d' = T"
    unfolding submit_failed(13) by auto
  with submit_failed(9,11) have "T = Some raw" by simp
  then show ?thesis
    unfolding submit_failed(13) by (simp add: submit_failed(1,5))
next
  case (submitted wid ft tt amt fc w name wei d raw h)
  let ?p = "quote_query (wallet_address w) ft tt wei (gasless r)"
  from answered obtain d' where "axios_get client (quote_url name) ?p = Inr d'" "data_tx d' = T"
    unfolding submitted(13) by auto
  with submitted(9,11) have "T = Some raw" by simp
  then show ?thesis
    unfolding submitted(13) by (simp add: submitted(1,5))
qed

lemma swap_never_sponsors:
  "\<forall>req\<in>set (submissions (fst (swapTokenBebop client r))). rpc_sponsor req = None"
  by (cases rule: swap_outcomes [of client r]) simp_all

lemma swap_gasless_param:
  "\<forall>(url, p)\<in>set (quote_requests (fst (swapTokenBebop client r))). gasless_param p = gasless r"
  by (cases rule: swap_outcomes [of client r]) simp_all

text \<open>
  C10. Take two swaps that differ only in the gasless flag, and let every quote request
  either of them makes be answered, without an error, with the same prepared transaction.
  Then both submit the same transactions to the custody service, each with the
  destination, call data and value of the prepared transaction. With no assumption on the
  answers: the quote requests of the two swaps are equal up to their gasless parameter,
  which is the flag of the request, and no transaction a swap submits carries a
  sponsorship flag.
\<close>

theorem gasless_only_in_quote_request:
  "((\<forall>(url, p)\<in>set (quote_requests (fst (swapTokenBebop client r)))
           \<union> set (quote_requests (fst (swapTokenBebop client (r\<lparr>gasless := g\<rparr>)))).
       \<exists>d. axios_get client url p = Inr d \<and> \<not> truthy (data_error d) \<and> data_tx d = T) \<longrightarrow>
     submissions (fst (swapTokenBebop client r)) =
       submissions (fst (swapTokenBebop client (r\<lparr>gasless := g\<rparr>))) \<and>
     (\<forall>req\<in>set (submissions (fst (swapTokenBebop client r))).
        \<exists>raw. T = Some raw \<and>
          rpc_transaction req = \<lparr>tx_to = raw_to raw, tx_data = raw_data raw,
                                 tx_value = or_default (raw_value raw) ''0x0''\<rparr>)) \<and>
   map (\<lambda>(url, p). (url, p\<lparr>gasless_param := False\<rparr>))
     (quote_requests (fst (swapTokenBebop client r))) =
   map (\<lambda>(url, p). (url, p\<lparr>gasless_param := False\<rparr>))
     (quote_requests (fst (swapTokenBebop client (r\<lparr>gasless := g\<rparr>)))) \<and>
   (\<forall>(url, p)\<in>set (quote_requests (fst (swapTokenBebop client r))). gasless_param p = gasless r) \<and>
   (\<forall>req\<in>set (submissions (fst (swapTokenBebop client r))). rpc_sponsor req = None)"
proof -
  let ?r' = "r\<lparr>gasless := g\<rparr>"
  let ?Q = "quote_requests (fst (swapTokenBebop client r))"
  let ?Q' = "quote_requests (fst (swapTokenBebop client ?r'))"
  have same_requests: "map (\<lambda>(url, p). (url, p\<lparr>gasless_param := False\<rparr>)) ?Q =
      map (\<lambda>(url, p). (url, p\<lparr>gasless_param := False\<rparr>)) ?Q'"
    by (rule swap_quote_requests_gasless)
  then have "length ?Q = length ?Q'"
    by (rule map_eq_imp_length_eq)
  then have empty: "?Q = [] \<longleftrightarrow> ?Q' = []"
    by auto
  have payload: "submissions (fst (swapTokenBebop client r)) =
       submissions (fst (swapTokenBebop client ?r')) \<and>
     (\<forall>req\<in>set (submissions (fst (swapTokenBebop client r))).
        \<exists>raw. T = Some raw \<and>
          rpc_transaction req = \<lparr>tx_to = raw_to raw, tx_data = raw_data raw,
                                 tx_value = or_default (raw_value raw) ''0x0''\<rparr>)"
    if answered: "\<forall>(url, p)\<in>set ?Q \<union> set ?Q'.
       \<exists>d. axios_get client url p = Inr d \<and> \<not> truthy (data_error d) \<and> data_tx d = T"
  proof -
    from answered have "\<forall>(url, p)\<in>set ?Q.
       \<exists>d. axios_get client url p = Inr d \<and> \<not> truthy (data_error d) \<and> data_tx d = T"
      by blast
    note one = swap_submissions_of_tx [OF this]
    from answered have "\<forall>(url, p)\<in>set ?Q'.
       \<exists>d. axios_get client url p = Inr d \<and> \<not> truthy (data_error d) \<and> data_tx d = T"
      by blast
    note other = swap_submissions_of_tx [OF this]
    from one other empty have "submissions (fst (swapTokenBebop client r)) =
       submissions (fst (swapTokenBebop client ?r'))"
      by simp
    moreover from one have "\<forall>req\<in>set (submissions (fst (swapTokenBebop client r))).
        \<exists>raw. T = Some raw \<and>
          rpc_transaction req = \<lparr>tx_to = raw_to raw, tx_data = raw_data raw,
                                 tx_value = or_default (raw_value raw) ''0x0''\<rparr>"
      by (auto split: if_splits option.splits)
    ultimately show ?thesis by blast
  qed
  from payload same_requests swap_gasless_param [of client r] swap_never_sponsors [of client r]
  show ?thesis by blast
qed

theorem gasless_only_in_quote_request_witness:
  "gasless scenario_request = False \<and> gasless gasless_request = True \<and>
   quote_requests (fst (swapTokenBebop mock_client gasless_request)) =
     [(''https://api.bebop.xyz/pmm/base/v3/quote'',
       \<lparr>buy_tokens = USDC_BASE, sell_tokens = WETH_BASE, sell_amounts = ''1000000000000000000'',
        taker_address = ''0x00000000000000000000000000000000000000aa'',
        gasless_param = True, approval_type = ''Standard''\<rparr>)] \<and>
   submissions (fst (swapTokenBebop mock_client scenario_request)) =
     submissions (fst (swapTokenBebop mock_client gasless_request)) \<and>
   submissions (fst (swapTokenBebop mock_client scenario_request)) =
     [\<lparr>rpc_walletId = ''w1'', rpc_caip2 = ''eip155:8453'', rpc_method = ''eth_sendTransaction'',
       rpc_transaction = \<lparr>tx_to = BEBOP_SETTLEMENT, tx_data = ''0x4dcebcba'', tx_value = ''0x0''\<rparr>,
       rpc_sponsor = None\<rparr>]"
proof -
  have flags: "gasless scenario_request = False" "gasless gasless_request = True"
      "gasless_request = scenario_request\<lparr>gasless := True\<rparr>"
    by (simp_all add: gasless_request_def scenario_request_def)
  have requests: "quote_requests (fst (swapTokenBebop mock_client gasless_request)) =
     [(''https://api.bebop.xyz/pmm/base/v3/quote'',
       \<lparr>buy_tokens = USDC_BASE, sell_tokens = WETH_BASE, sell_amounts = ''1000000000000000000'',
        taker_address = ''0x00000000000000000000000000000000000000aa'',
        gasless_param = True, approval_type = ''Standard''\<rparr>)]"
    by code_simp
  have subs: "submissions (fst (swapTokenBebop mock_client scenario_request)) =
     [\<lparr>rpc_walletId = ''w1'', rpc_caip2 = ''eip155:8453'', rpc_method = ''eth_sendTransaction'',
       rpc_transaction = \<lparr>tx_to = BEBOP_SETTLEMENT, tx_data = ''0x4dcebcba'', tx_value = ''0x0''\<rparr>,
       rpc_sponsor = None\<rparr>]"
    unfolding scenario_run by (simp add: scenario_calls_def)
  have answered: "\<forall>(url, p)\<in>set (quote_requests (fst (swapTokenBebop mock_client scenario_request)))
           \<union> set (quote_requests (fst (swapTokenBebop mock_client (scenario_request\<lparr>gasless := True\<rparr>)))).
       \<exists>d. axios_get mock_client url p = Inr d \<and> \<not> truthy (data_error d) \<and> data_tx d = Some stub_tx"
    by (simp add: mock_client_def mock_quote_def truthy_def)
  from gasless_only_in_quote_request [of mock_client scenario_request True "Some stub_tx"] answered
  have "submissions (fst (swapTokenBebop mock_client scenario_request)) =
     submissions (fst (swapTokenBebop mock_client (scenario_request\<lparr>gasless := True\<rparr>)))"
    by blast
  with flags requests subs show ?thesis by simp
qed

end
